theory Spec2Isabelle
  imports Complex_Main "HOL-Library.Multiset"
begin

chapter \<open>The model\<close>

section \<open>JavaScript numbers\<close>

text \<open>
  A JavaScript number is an IEEE 754 double. The model keeps the three kinds of values on
  which the program's control flow depends: finite numbers, the two infinities and NaN.
  Finite arithmetic is exact (a finite value is a real number; rounding error of the
  audio and text statistics is not represented), with one exception: the weighted sum
  of the overall score is modelled with the rounding of every operation, see below.
  The sign of zero is not represented; a zero divisor counts as \<open>+0\<close>.
\<close>

datatype jsnum = Fin real | PInf | NInf | NaN

text \<open>The infinity with the sign of \<open>a\<close>, and NaN for zero: \<open>a / 0\<close> and \<open>a * Infinity\<close>.\<close>

definition inf_signed :: "real \<Rightarrow> jsnum" where
  "inf_signed a = (if a = 0 then NaN else if a > 0 then PInf else NInf)"

fun js_neg :: "jsnum \<Rightarrow> jsnum" where
  "js_neg (Fin a) = Fin (- a)"
| "js_neg PInf = NInf"
| "js_neg NInf = PInf"
| "js_neg NaN = NaN"

fun js_add :: "jsnum \<Rightarrow> jsnum \<Rightarrow> jsnum" where
  "js_add (Fin a) (Fin b) = Fin (a + b)"
| "js_add NaN _ = NaN"
| "js_add _ NaN = NaN"
| "js_add PInf NInf = NaN"
| "js_add NInf PInf = NaN"
| "js_add PInf _ = PInf"
| "js_add _ PInf = PInf"
| "js_add NInf _ = NInf"
| "js_add _ NInf = NInf"

definition js_sub :: "jsnum \<Rightarrow> jsnum \<Rightarrow> jsnum" where
  "js_sub a b = js_add a (js_neg b)"

fun js_mul :: "jsnum \<Rightarrow> jsnum \<Rightarrow> jsnum" where
  "js_mul (Fin a) (Fin b) = Fin (a * b)"
| "js_mul NaN _ = NaN"
| "js_mul _ NaN = NaN"
| "js_mul (Fin a) PInf = inf_signed a"
| "js_mul (Fin a) NInf = inf_signed (- a)"
| "js_mul PInf (Fin b) = inf_signed b"
| "js_mul NInf (Fin b) = inf_signed (- b)"
| "js_mul PInf PInf = PInf"
| "js_mul NInf NInf = PInf"
| "js_mul PInf NInf = NInf"
| "js_mul NInf PInf = NInf"

fun js_div :: "jsnum \<Rightarrow> jsnum \<Rightarrow> jsnum" where
  "js_div (Fin a) (Fin b) = (if b \<noteq> 0 then Fin (a / b) else inf_signed a)"
| "js_div NaN _ = NaN"
| "js_div _ NaN = NaN"
| "js_div (Fin a) _ = Fin 0"
| "js_div PInf (Fin b) = (if b \<ge> 0 then PInf else NInf)"
| "js_div NInf (Fin b) = (if b \<ge> 0 then NInf else PInf)"
| "js_div _ _ = NaN"

text \<open>Comparisons: every comparison with NaN is false.\<close>

fun js_lt :: "jsnum \<Rightarrow> jsnum \<Rightarrow> bool" where
  "js_lt (Fin a) (Fin b) = (a < b)"
| "js_lt NaN _ = False"
| "js_lt _ NaN = False"
| "js_lt _ NInf = False"
| "js_lt PInf _ = False"
| "js_lt _ _ = True"

fun js_le :: "jsnum \<Rightarrow> jsnum \<Rightarrow> bool" where
  "js_le (Fin a) (Fin b) = (a \<le> b)"
| "js_le NaN _ = False"
| "js_le _ NaN = False"
| "js_le NInf _ = True"
| "js_le _ PInf = True"
| "js_le _ _ = False"

definition js_gt :: "jsnum \<Rightarrow> jsnum \<Rightarrow> bool" where
  "js_gt a b = js_lt b a"

definition js_ge :: "jsnum \<Rightarrow> jsnum \<Rightarrow> bool" where
  "js_ge a b = js_le b a"

text \<open>\<open>Math.max\<close> of two numbers.\<close>

fun js_max :: "jsnum \<Rightarrow> jsnum \<Rightarrow> jsnum" where
  "js_max (Fin a) (Fin b) = Fin (max a b)"
| "js_max NaN _ = NaN"
| "js_max _ NaN = NaN"
| "js_max PInf _ = PInf"
| "js_max _ PInf = PInf"
| "js_max NInf b = b"
| "js_max a NInf = a"

text \<open>
  \<open>x.toFixed(k)\<close> prints the decimal with \<open>k\<close> fraction digits nearest to \<open>x\<close>, the
  larger one on a tie of the magnitudes; the program reads the string back with
  \<open>parseFloat\<close>, or leaves it as a string that later code parses. The model keeps the
  number that the string denotes. \<open>Math.round\<close> rounds a tie upwards.

  The argument here is the exact real. The program's argument is the double next to it,
  so where the exact value lies halfway between two decimals the program may print
  either of them; a statement about a printed value of the audio or text statistics
  is therefore a bound, or is made at an input without such a tie.
\<close>

definition toFixed :: "nat \<Rightarrow> real \<Rightarrow> real" where
  "toFixed k x = sgn x * of_int \<lfloor>\<bar>x\<bar> * 10 ^ k + 1 / 2\<rfloor> / 10 ^ k"

definition Math_round :: "real \<Rightarrow> int" where
  "Math_round x = \<lfloor>x + 1 / 2\<rfloor>"

fun js_map :: "(real \<Rightarrow> real) \<Rightarrow> jsnum \<Rightarrow> jsnum" where
  "js_map f (Fin a) = Fin (f a)"
| "js_map f x = x"

definition js_toFixed :: "nat \<Rightarrow> jsnum \<Rightarrow> jsnum" where
  "js_toFixed k = js_map (toFixed k)"

definition js_round :: "jsnum \<Rightarrow> jsnum" where
  "js_round = js_map (\<lambda>x. of_int (Math_round x))"

definition js_floor :: "jsnum \<Rightarrow> jsnum" where
  "js_floor = js_map (\<lambda>x. of_int \<lfloor>x\<rfloor>)"

text \<open>\<open>x || d\<close> on a number: zero and NaN are falsy.\<close>

fun truthy :: "jsnum \<Rightarrow> bool" where
  "truthy (Fin a) = (a \<noteq> 0)"
| "truthy NaN = False"
| "truthy _ = True"

definition js_or :: "jsnum \<Rightarrow> jsnum \<Rightarrow> jsnum" where
  "js_or x d = (if truthy x then x else d)"

section \<open>JavaScript strings and arrays\<close>

text \<open>
  Text is a list of characters. The model covers ASCII text: \<open>toLowerCase\<close> maps the
  letters A to Z and the white space of \<open>\s\<close> and of \<open>trim\<close> is the six ASCII white-space
  characters; the word characters of \<open>\w\<close> and \<open>\b\<close> are ASCII in JavaScript as well.
\<close>

definition toLower :: "char \<Rightarrow> char" where
  "toLower c =
     (case map_of (zip ''ABCDEFGHIJKLMNOPQRSTUVWXYZ'' ''abcdefghijklmnopqrstuvwxyz'') c of
        Some l \<Rightarrow> l
      | None \<Rightarrow> c)"

definition toLowerCase :: "string \<Rightarrow> string" where
  "toLowerCase s = map toLower s"

definition isSpace :: "char \<Rightarrow> bool" where
  "isSpace c \<longleftrightarrow> c \<in> set [CHR '' '', CHR 0x09, CHR 0x0A, CHR 0x0B, CHR 0x0C, CHR 0x0D]"

definition isWordChar :: "char \<Rightarrow> bool" where
  "isWordChar c \<longleftrightarrow>
     c \<in> set ''abcdefghijklmnopqrstuvwxyzABCDEFGHIJKLMNOPQRSTUVWXYZ0123456789_''"

definition trim :: "string \<Rightarrow> string" where
  "trim s = rev (dropWhile isSpace (rev (dropWhile isSpace s)))"

text \<open>
  \<open>split_on P\<close> cuts a list at every element that satisfies \<open>P\<close> and drops those
  elements. \<open>s.split(/[...]+/)\<close> cuts at every maximal run of separators instead; the
  two differ by empty pieces only, and both uses in the program filter the empty pieces
  out.
\<close>

fun split_on :: "('a \<Rightarrow> bool) \<Rightarrow> 'a list \<Rightarrow> 'a list list" where
  "split_on P [] = [[]]"
| "split_on P (x # xs) =
     (if P x then [] # split_on P xs
      else (case split_on P xs of [] \<Rightarrow> [[x]] | r # rs \<Rightarrow> (x # r) # rs))"

text \<open>\<open>s.includes(m)\<close>: \<open>m\<close> occurs in \<open>s\<close> as a contiguous piece.\<close>

fun includes_str :: "'a list \<Rightarrow> 'a list \<Rightarrow> bool" where
  "includes_str [] m = (m = [])"
| "includes_str (c # cs) m = (take (length m) (c # cs) = m \<or> includes_str cs m)"

text \<open>
  The elements of \<open>new Set(xs)\<close> in iteration order: the first occurrence of every
  element, in the order of the list.
\<close>

fun dedup_from :: "'a list \<Rightarrow> 'a list \<Rightarrow> 'a list" where
  "dedup_from seen [] = []"
| "dedup_from seen (x # xs) =
     (if x \<in> set seen then dedup_from seen xs else x # dedup_from (x # seen) xs)"

definition dedup :: "'a list \<Rightarrow> 'a list" where
  "dedup xs = dedup_from [] xs"

text \<open>
  The number of matches of the regular expression \<open>\bpat\b\<close> with the flags \<open>gi\<close>, for a
  non-empty literal pattern: \<open>text.match(regex).length\<close>, or 0 when the result is null.
  The scan tries every position from the left and continues behind a match.
  \<open>prev\<close> is the character before the position, absent at the start of the text.
\<close>

definition word_boundary :: "char option \<Rightarrow> char option \<Rightarrow> bool" where
  "word_boundary a b \<longleftrightarrow>
     (case a of None \<Rightarrow> False | Some c \<Rightarrow> isWordChar c)
       \<noteq> (case b of None \<Rightarrow> False | Some c \<Rightarrow> isWordChar c)"

definition match_at :: "string \<Rightarrow> char option \<Rightarrow> string \<Rightarrow> bool" where
  "match_at pat prev rest \<longleftrightarrow>
     pat \<noteq> [] \<and> length pat \<le> length rest
     \<and> toLowerCase (take (length pat) rest) = toLowerCase pat
     \<and> word_boundary prev (case rest of [] \<Rightarrow> None | c # _ \<Rightarrow> Some c)
     \<and> word_boundary (Some (last (take (length pat) rest)))
          (case drop (length pat) rest of [] \<Rightarrow> None | c # _ \<Rightarrow> Some c)"

fun match_count :: "string \<Rightarrow> char option \<Rightarrow> string \<Rightarrow> nat" where
  "match_count pat prev [] = 0"
| "match_count pat prev (c # cs) =
     (if match_at pat prev (c # cs) then
        1 + match_count pat (Some (last (take (length pat) (c # cs)))) (drop (length pat - 1) cs)
      else match_count pat (Some c) cs)"

text \<open>Decimal digits of a natural number, as \<open>String(n)\<close> and template literals print it.\<close>

fun show_nat :: "nat \<Rightarrow> string" where
  "show_nat n =
     (if n < 10 then [''0123456789'' ! n]
      else show_nat (n div 10) @ [''0123456789'' ! (n mod 10)])"

declare show_nat.simps [simp del]

section \<open>Audio feature extractor\<close>

text \<open>
  The decoded audio is a Web Audio \<open>AudioBuffer\<close>. The extractor reads its \<open>duration\<close>,
  its \<open>sampleRate\<close> and the samples of channel 0. Samples are finite numbers.
\<close>

record audioBuffer =
  ab_duration :: real
  sampleRate :: real
  channelData :: "real list"

text \<open>
  The platform computes the duration of a buffer as its length divided by its sample
  rate; the extractor takes it as given.
\<close>

definition wellformed_buffer :: "audioBuffer \<Rightarrow> bool" where
  "wellformed_buffer b \<longleftrightarrow>
     ab_duration b = real (length (channelData b)) / sampleRate b"

datatype error = Error string

record durationAnalysis =
  da_score :: int
  da_feedback :: string
  da_minutes :: real

definition analyzeDuration :: "real \<Rightarrow> durationAnalysis" where
  "analyzeDuration duration =
     (let minutes = duration / 60;
          (score, feedback) =
            (if minutes < 0.5 then
               (40, ''Too short. Try to speak for at least 1-2 minutes'')
             else if minutes \<ge> 0.5 \<and> minutes < 1 then
               (60, ''A bit short. Aim for 1.5-2.5 minutes for optimal assessment'')
             else if minutes \<ge> 1 \<and> minutes \<le> 3 then
               (95, ''Perfect duration! Well-balanced speaking time'')
             else if minutes > 3 \<and> minutes \<le> 4 then
               (85, ''Good length, but slightly long. Try to be more concise'')
             else
               (70, ''Too long. Practice being more concise and focused''))
      in \<lparr>da_score = score, da_feedback = feedback, da_minutes = toFixed 1 minutes\<rparr>)"

record volumeAnalysis =
  va_average :: jsnum
  va_consistency :: real
  va_energy :: jsnum

text \<open>The loop of \<open>analyzeVolume\<close>; the state is \<open>(sum, sumSquares)\<close>, the sum of the absolute amplitudes and the sum of
  their squares.\<close>

fun volume_loop :: "real list \<Rightarrow> real \<times> real \<Rightarrow> real \<times> real" where
  "volume_loop [] acc = acc"
| "volume_loop (x # xs) (sum_abs, sumSquares) =
     (let v = \<bar>x\<bar> in volume_loop xs (sum_abs + v, sumSquares + v * v))"

text \<open>
  On an empty buffer \<open>average\<close> is \<open>0 / 0\<close>, that is NaN; the variance, the standard
  deviation and the energy are NaN with it, the test \<open>average > 0\<close> is false and the
  consistency is 0. Otherwise the only divisors are the length and, guarded by
  \<open>average > 0\<close>, the average.
\<close>

definition analyzeVolume :: "real list \<Rightarrow> volumeAnalysis" where
  "analyzeVolume data =
     (let (sum_abs, sumSquares) = volume_loop data (0, 0);
          len = length data
      in if len = 0 then \<lparr>va_average = NaN, va_consistency = toFixed 6 0, va_energy = NaN\<rparr>
         else
           let average = sum_abs / real len;
               variance = (sumSquares / real len) - (average * average);
               stdDev = sqrt (max 0 variance);
               consistency = (if average > 0 then max 0 (min 1 (1 - (stdDev / average))) else 0);
               energy = sqrt (sumSquares / real len)
           in \<lparr>va_average = Fin (toFixed 6 average),
               va_consistency = toFixed 6 consistency,
               va_energy = Fin (toFixed 6 energy)\<rparr>)"

record pauseAnalysis =
  pa_count :: int
  pa_totalDuration :: jsnum
  pa_score :: int

definition threshold_silence :: real where
  "threshold_silence = 0.01"

definition minPauseDuration :: real where
  "minPauseDuration = 0.3"

definition minPauseSamples :: "real \<Rightarrow> int" where
  "minPauseSamples rate = \<lfloor>minPauseDuration * rate\<rfloor>"

text \<open>
  The loop of \<open>detectPauses\<close>; the state is
  \<open>(pauseCount, totalPauseDuration, currentPause)\<close>.
\<close>

fun pause_loop :: "int \<Rightarrow> real \<Rightarrow> real list \<Rightarrow> int \<times> jsnum \<times> int \<Rightarrow> int \<times> jsnum \<times> int" where
  "pause_loop mps rate [] st = st"
| "pause_loop mps rate (x # xs) (pauseCount, totalPauseDuration, currentPause) =
     (if \<bar>x\<bar> < threshold_silence then
        pause_loop mps rate xs (pauseCount, totalPauseDuration, currentPause + 1)
      else if currentPause \<ge> mps then
        pause_loop mps rate xs
          (pauseCount + 1,
           js_add totalPauseDuration (js_div (Fin (real_of_int currentPause)) (Fin rate)),
           0)
      else
        pause_loop mps rate xs (pauseCount, totalPauseDuration, 0))"

definition pause_band :: "int \<Rightarrow> int" where
  "pause_band pauseCount =
     (if pauseCount < 3 then 60
      else if pauseCount \<ge> 3 \<and> pauseCount \<le> 15 then 95
      else if pauseCount > 15 \<and> pauseCount \<le> 25 then 80
      else 65)"

definition detectPauses :: "real list \<Rightarrow> real \<Rightarrow> pauseAnalysis" where
  "detectPauses data rate =
     (let mps = minPauseSamples rate;
          (pauseCount, totalPauseDuration, currentPause) =
             pause_loop mps rate data (0, Fin 0, 0);
          (pauseCount, totalPauseDuration) =
             (if currentPause \<ge> mps then
                (pauseCount + 1,
                 js_add totalPauseDuration (js_div (Fin (real_of_int currentPause)) (Fin rate)))
              else (pauseCount, totalPauseDuration))
      in \<lparr>pa_count = pauseCount,
          pa_totalDuration = js_toFixed 2 totalPauseDuration,
          pa_score = pause_band pauseCount\<rparr>)"

record speechRateAnalysis =
  sr_rate :: jsnum
  sr_score :: int
  sr_feedback :: string

definition estimateSpeechRate :: "real \<Rightarrow> pauseAnalysis \<Rightarrow> speechRateAnalysis" where
  "estimateSpeechRate duration pauseAn =
     (let activeSpeechTime = js_max (Fin 1) (js_sub (Fin duration) (pa_totalDuration pauseAn));
          estimatedWords = js_mul activeSpeechTime (Fin 2.5);
          wordsPerMinute = js_mul (js_div estimatedWords (Fin duration)) (Fin 60);
          (score, feedback) =
            (if js_lt wordsPerMinute (Fin 100) then
               (70, ''Speaking too slowly. Try to speak more naturally'')
             else if js_ge wordsPerMinute (Fin 100) \<and> js_le wordsPerMinute (Fin 160) then
               (95, ''Excellent speaking pace! Natural and clear'')
             else if js_gt wordsPerMinute (Fin 160) \<and> js_le wordsPerMinute (Fin 180) then
               (85, ''Speaking a bit fast. Try to slow down slightly'')
             else
               (65, ''Speaking too fast. Slow down for better clarity''))
      in \<lparr>sr_rate = js_round wordsPerMinute, sr_score = score, sr_feedback = feedback\<rparr>)"

record pitchAnalysis =
  pi_variation :: real
  pi_score :: int

text \<open>
  One window of \<open>analyzePitch\<close>: the mean absolute amplitude of the samples from
  \<open>start\<close> up to \<open>end\<close>. The body runs only for \<open>i < windows\<close>, where the window size
  is at least 1 and the window lies inside the buffer, so \<open>end - start\<close> is the window
  size and the division is by a positive number.
\<close>

definition pitch_window :: "real list \<Rightarrow> nat \<Rightarrow> nat \<Rightarrow> real" where
  "pitch_window data windowSize i =
     (let start = i * windowSize;
          endIdx = min (start + windowSize) (length data);
          sum_abs = (\<Sum>j\<leftarrow>[start..<endIdx]. \<bar>data ! j\<bar>)
      in sum_abs / real (endIdx - start))"

definition pitchValues :: "real list \<Rightarrow> nat \<Rightarrow> nat \<Rightarrow> real list" where
  "pitchValues data windowSize windows =
     filter (\<lambda>avg. avg > 0.001) (map (pitch_window data windowSize) [0..<windows])"

text \<open>
  The number of windows is \<open>Math.floor(length / windowSize)\<close>. For a window size of 0
  and a non-empty buffer it is \<open>Infinity\<close>, and the loop \<open>for (i = 0; i < windows; i++)\<close>
  never ends (its body pushes nothing, the window being empty): the model returns
  \<open>None\<close>. For a window size of 0 and an empty buffer it is NaN, for a negative window
  size it is at most 0; the loop body does not run.
\<close>

definition pitch_windows :: "nat \<Rightarrow> int \<Rightarrow> jsnum" where
  "pitch_windows len windowSize =
     js_floor (js_div (Fin (real len)) (Fin (real_of_int windowSize)))"

fun loop_bound :: "jsnum \<Rightarrow> nat option" where
  "loop_bound (Fin n) = Some (nat \<lfloor>n\<rfloor>)"
| "loop_bound PInf = None"
| "loop_bound NInf = Some 0"
| "loop_bound NaN = Some 0"

definition pitch_band :: "real \<Rightarrow> int" where
  "pitch_band variation =
     (if variation < 0.2 then 65
      else if variation \<ge> 0.2 \<and> variation \<le> 0.6 then 95
      else 75)"

definition analyzePitch :: "real list \<Rightarrow> real \<Rightarrow> pitchAnalysis option" where
  "analyzePitch data rate =
     (let windowSize = \<lfloor>rate * 0.05\<rfloor>
      in case loop_bound (pitch_windows (length data) windowSize) of
           None \<Rightarrow> None
         | Some windows \<Rightarrow>
             (let pv = pitchValues data (nat windowSize) windows
              in if length pv = 0 then Some \<lparr>pi_variation = 0, pi_score = 50\<rparr>
                 else
                   let mean = sum_list pv / real (length pv);
                       variance = (\<Sum>v\<leftarrow>pv. (v - mean) ^ 2) / real (length pv);
                       variation = (if mean > 0 then sqrt variance / mean else 0)
                   in Some \<lparr>pi_variation = toFixed 3 variation,
                            pi_score = pitch_band variation\<rparr>))"

definition estimateClarity :: "volumeAnalysis \<Rightarrow> pitchAnalysis \<Rightarrow> int" where
  "estimateClarity volumeAn pitchAn =
     (let clarityScore = (va_consistency volumeAn * 50) + (real_of_int (pi_score pitchAn) / 2)
      in Math_round (min 100 (max 0 clarityScore)))"

record features =
  duration :: real
  durationScore :: int
  durationFeedback :: string
  averageVolume :: jsnum
  volumeConsistency :: real
  energyLevel :: jsnum
  totalPauses :: int
  pauseDuration :: jsnum
  pauseScore :: int
  speechRate :: jsnum
  speechRateScore :: int
  pitchVariation :: real
  pitchScore :: int
  clarity :: int

text \<open>
  \<open>extractFeatures\<close> reads the buffer that \<open>processAudio\<close> stored in the processor, which
  is absent before any audio was decoded. The outer \<open>option\<close> is \<open>None\<close> when the call
  does not return; the sum carries the exception.
\<close>

definition extractFeatures :: "audioBuffer option \<Rightarrow> (error + features) option" where
  "extractFeatures audioBuf =
     (case audioBuf of
        None \<Rightarrow> Some (Inl (Error ''No audio buffer available''))
      | Some buf \<Rightarrow>
          (let duration = ab_duration buf;
               rate = sampleRate buf;
               data = channelData buf;
               durationAn = analyzeDuration duration;
               volumeAn = analyzeVolume data;
               pauseAn = detectPauses data rate;
               speechRateAn = estimateSpeechRate duration pauseAn
           in case analyzePitch data rate of
                None \<Rightarrow> None
              | Some pitchAn \<Rightarrow>
                  Some (Inr \<lparr>duration = duration,
                             durationScore = da_score durationAn,
                             durationFeedback = da_feedback durationAn,
                             averageVolume = va_average volumeAn,
                             volumeConsistency = va_consistency volumeAn,
                             energyLevel = va_energy volumeAn,
                             totalPauses = pa_count pauseAn,
                             pauseDuration = pa_totalDuration pauseAn,
                             pauseScore = pa_score pauseAn,
                             speechRate = sr_rate speechRateAn,
                             speechRateScore = sr_score speechRateAn,
                             pitchVariation = pi_variation pitchAn,
                             pitchScore = pi_score pitchAn,
                             clarity = estimateClarity volumeAn pitchAn\<rparr>)))"

subsection \<open>Pauses as runs of silent samples\<close>







section \<open>Transcript analyzer\<close>

record grammarIndicators =
  hasComplexSentences :: bool
  hasConditionals :: bool
  hasPerfectTenses :: bool
  hasPassiveVoice :: bool
  gi_score :: int

record coherenceIndicators =
  hasIntroduction :: bool
  hasConclusion :: bool
  hasTransitionWords :: bool
  transitionWordsUsed :: "string list"
  ci_score :: int

text \<open>
  The fields \<open>vocabularyRichness\<close>, \<open>avgWordsPerSentence\<close>, \<open>avgWordLength\<close> and
  \<open>fillerRatio\<close> are strings printed by \<open>toFixed(1)\<close>; the model keeps the numbers they
  denote, the string \<open>"NaN"\<close> being NaN. \<open>fillerWords\<close> is an object from filler to
  count, in insertion order.
\<close>

record transcriptAnalysis =
  wordCount :: nat
  uniqueWordCount :: nat
  vocabularyRichness :: jsnum
  sentenceCount :: nat
  avgWordsPerSentence :: real
  avgWordLength :: jsnum
  fillerWordCount :: nat
  fillerWords :: "(string \<times> nat) list"
  fillerRatio :: jsnum
  advancedWords :: "string list"
  advancedWordCount :: nat
  grammarIndicators :: grammarIndicators
  coherenceIndicators :: coherenceIndicators
  rawText :: string

text \<open>
  The empty analysis has indicator objects with the score only; the flags that it leaves
  undefined are falsy and are \<open>False\<close> here, the undefined list of transition words is
  empty.
\<close>

definition getEmptyAnalysis :: transcriptAnalysis where
  "getEmptyAnalysis =
     \<lparr>wordCount = 0,
      uniqueWordCount = 0,
      vocabularyRichness = Fin 0,
      sentenceCount = 0,
      avgWordsPerSentence = 0,
      avgWordLength = Fin 0,
      fillerWordCount = 0,
      fillerWords = [],
      fillerRatio = Fin 0,
      advancedWords = [],
      advancedWordCount = 0,
      grammarIndicators = \<lparr>hasComplexSentences = False, hasConditionals = False,
                             hasPerfectTenses = False, hasPassiveVoice = False, gi_score = 50\<rparr>,
      coherenceIndicators = \<lparr>hasIntroduction = False, hasConclusion = False,
                               hasTransitionWords = False, transitionWordsUsed = [], ci_score = 50\<rparr>,
      rawText = []\<rparr>"

definition advancedWordList :: "string list" where
  "advancedWordList =
     [''furthermore'', ''moreover'', ''nevertheless'', ''consequently'', ''subsequently'',
      ''particularly'', ''significantly'', ''essentially'', ''predominantly'', ''fundamentally'',
      ''comprehensive'', ''substantial'', ''considerable'', ''remarkable'', ''extraordinary'',
      ''implement'', ''establish'', ''demonstrate'', ''illustrate'', ''emphasize'',
      ''perspective'', ''approach'', ''aspect'', ''factor'', ''impact'',
      ''enhance'', ''facilitate'', ''contribute'', ''integrate'', ''accommodate'',
      ''environment'', ''technology'', ''development'', ''opportunity'', ''experience'',
      ''sustainable'', ''innovative'', ''efficient'', ''effective'', ''beneficial'',
      ''analyze'', ''evaluate'', ''assess'', ''determine'', ''investigate'',
      ''phenomenon'', ''methodology'', ''hypothesis'', ''paradigm'', ''synthesis'']"

text \<open>The second loop of \<open>detectAdvancedVocabulary\<close>, over the words.\<close>

fun long_words_loop :: "string list \<Rightarrow> string list \<Rightarrow> string list" where
  "long_words_loop [] foundAdvanced = foundAdvanced"
| "long_words_loop (w # ws) foundAdvanced =
     long_words_loop ws
       (if length w \<ge> 8 \<and> toLowerCase w \<notin> set foundAdvanced
        then foundAdvanced @ [toLowerCase w] else foundAdvanced)"

definition detectAdvancedVocabulary :: "string list \<Rightarrow> string list" where
  "detectAdvancedVocabulary ws =
     (let wordSet = set (map toLowerCase ws);
          foundAdvanced = filter (\<lambda>w. w \<in> wordSet) advancedWordList
      in take 20 (dedup (long_words_loop ws foundAdvanced)))"

definition complexMarkers :: "string list" where
  "complexMarkers = [''although'', ''whereas'', ''while'', ''despite'', ''unless'', ''provided that'']"

definition conditionalMarkers :: "string list" where
  "conditionalMarkers = [''if'', ''would'', ''could'', ''might'', ''should'']"

definition perfectMarkers :: "string list" where
  "perfectMarkers = [''have been'', ''has been'', ''had been'', ''have had'', ''has had'']"

definition passiveMarkers :: "string list" where
  "passiveMarkers = [''is done'', ''was done'', ''been done'', ''be done'', ''is made'', ''was made'']"

definition analyzeGrammarIndicators :: "string \<Rightarrow> grammarIndicators" where
  "analyzeGrammarIndicators text =
     (let complex = list_ex (\<lambda>m. includes_str (toLowerCase text) m) complexMarkers;
          conditionalCount = length (filter (\<lambda>m. includes_str (toLowerCase text) m) conditionalMarkers);
          conditionals = (conditionalCount \<ge> 2);
          perfect = list_ex (\<lambda>m. includes_str (toLowerCase text) m) perfectMarkers;
          passive = list_ex (\<lambda>m. includes_str (toLowerCase text) m) passiveMarkers;
          score = 50;
          score = (if complex then score + 15 else score);
          score = (if conditionals then score + 10 else score);
          score = (if perfect then score + 10 else score);
          score = (if passive then score + 5 else score)
      in \<lparr>hasComplexSentences = complex, hasConditionals = conditionals,
          hasPerfectTenses = perfect, hasPassiveVoice = passive,
          gi_score = min 100 score\<rparr>)"

definition introMarkers :: "string list" where
  "introMarkers = [''i would like to'', ''i want to talk about'', ''let me'', ''first of all'',
                   ''to begin with'', ''i think'', ''in my opinion'']"

definition conclusionMarkers :: "string list" where
  "conclusionMarkers = [''in conclusion'', ''to sum up'', ''finally'', ''overall'',
                        ''to conclude'', ''in summary'', ''all in all'']"

definition transitionWords :: "string list" where
  "transitionWords = [''firstly'', ''secondly'', ''thirdly'', ''however'', ''therefore'',
                      ''moreover'', ''furthermore'', ''additionally'', ''nevertheless'',
                      ''on the other hand'', ''for example'', ''for instance'',
                      ''as a result'', ''consequently'', ''in addition'']"

definition analyzeCoherenceIndicators :: "string \<Rightarrow> coherenceIndicators" where
  "analyzeCoherenceIndicators text =
     (let lowerText = toLowerCase text;
          introduction = list_ex (\<lambda>m. includes_str lowerText m) introMarkers;
          conclusion = list_ex (\<lambda>m. includes_str lowerText m) conclusionMarkers;
          used = filter (\<lambda>tw. includes_str lowerText tw) transitionWords;
          transition = (length used > 0);
          score = 50;
          score = (if introduction then score + 15 else score);
          score = (if conclusion then score + 15 else score);
          score = (if transition then score + int (length used) * 5 else score)
      in \<lparr>hasIntroduction = introduction, hasConclusion = conclusion,
          hasTransitionWords = transition, transitionWordsUsed = used,
          ci_score = min 100 score\<rparr>)"

definition fillerWordList :: "string list" where
  "fillerWordList = [''um'', ''uh'', ''like'', ''you know'', ''basically'', ''actually'',
                     ''literally'', ''so'', ''well'', ''i mean'', ''kind of'', ''sort of'']"

text \<open>
  The loop over the fillers; the state is \<open>(fillerWordMap, fillerCount)\<close>. A filler
  without a match leaves both unchanged.
\<close>

fun filler_loop :: "string list \<Rightarrow> string \<Rightarrow> (string \<times> nat) list \<times> nat \<Rightarrow> (string \<times> nat) list \<times> nat" where
  "filler_loop [] text st = st"
| "filler_loop (filler # rest) text (fillerWordMap, fillerCount) =
     (let matches = match_count filler None text
      in if matches > 0
         then filler_loop rest text (fillerWordMap @ [(filler, matches)], fillerCount + matches)
         else filler_loop rest text (fillerWordMap, fillerCount))"

text \<open>
  The transcript may be absent (\<open>null\<close> or \<open>undefined\<close>). With no word in a non-empty
  text the quotients \<open>uniqueWordCount / wordCount\<close>, \<open>fillerCount / wordCount\<close> and the mean
  word length are \<open>0 / 0\<close>.
\<close>

definition analyzeTranscript :: "string option \<Rightarrow> transcriptAnalysis" where
  "analyzeTranscript textOpt =
     (case textOpt of
        None \<Rightarrow> getEmptyAnalysis
      | Some text \<Rightarrow>
          if length text = 0 then getEmptyAnalysis
          else
            let ws = filter (\<lambda>w. length w > 0) (split_on isSpace (toLowerCase text));
                sentences = filter (\<lambda>s. length (trim s) > 0)
                              (split_on (\<lambda>c. c \<in> set ''.!?'') text);
                wordCnt = length ws;
                uniqueWordCnt = length (dedup ws);
                richness = js_div (Fin (real uniqueWordCnt)) (Fin (real wordCnt));
                (fillerWordMap, fillerCount) = filler_loop fillerWordList text ([], 0);
                avgWordsPerSent =
                  (if length sentences > 0 then real wordCnt / real (length sentences) else 0);
                avgWordLen = js_div (Fin (real (foldl (\<lambda>s w. s + length w) 0 ws)))
                                    (Fin (real (length ws)));
                advanced = detectAdvancedVocabulary ws
            in \<lparr>wordCount = wordCnt,
                uniqueWordCount = uniqueWordCnt,
                vocabularyRichness = js_toFixed 1 (js_mul richness (Fin 100)),
                sentenceCount = length sentences,
                avgWordsPerSentence = toFixed 1 avgWordsPerSent,
                avgWordLength = js_toFixed 1 avgWordLen,
                fillerWordCount = fillerCount,
                fillerWords = fillerWordMap,
                fillerRatio = js_toFixed 1
                  (js_mul (js_div (Fin (real fillerCount)) (Fin (real wordCnt))) (Fin 100)),
                advancedWords = advanced,
                advancedWordCount = length advanced,
                grammarIndicators = analyzeGrammarIndicators text,
                coherenceIndicators = analyzeCoherenceIndicators text,
                rawText = text\<rparr>)"

section \<open>Scoring engine\<close>

text \<open>
  The analyzer's constructor installs two constant tables, \<open>levelThresholds\<close> and
  \<open>weights\<close>, and no method assigns to them. Both are object literals with string
  keys; \<open>for (key in obj)\<close> and \<open>Object.entries\<close> visit such keys in insertion order, so
  an object is an association list in the order of the literal.

  The pictographs at the start of some titles and the \<open>icon\<close> fields are left out of the
  strings; everything else is the program's text.
\<close>

subsection \<open>Skill analyses\<close>

record fluencyStats =
  st_pauseRatio :: jsnum
  st_speechRate :: jsnum
  st_pauseCount :: int
  st_fillerWords :: nat

text \<open>
  The result of one skill analysis. The properties that only some analyses set
  (\<open>stats\<close>, \<open>limitation\<close>, \<open>wordCount\<close>, \<open>uniqueWords\<close>) are optional; \<open>wordCount\<close> and
  \<open>uniqueWords\<close> are \<open>null\<close> for a missing transcript and for the count 0.
\<close>

record skillAnalysis =
  score :: int
  feedback :: "string list"
  issues :: "string list"
  details :: "string list"
  honestAssessment :: string
  stats :: "fluencyStats option"
  limitation :: "string option"
  sa_wordCount :: "nat option"
  uniqueWords :: "nat option"

text \<open>
  The analyses accumulate \<open>score\<close>, \<open>feedback\<close>, \<open>issues\<close> and \<open>details\<close> in local
  variables; the state of the model is the tuple of the four.
\<close>

type_synonym acc = "int \<times> string list \<times> string list \<times> string list"

definition add_score :: "int \<Rightarrow> acc \<Rightarrow> acc" where
  "add_score d a = (case a of (s, f, i, dt) \<Rightarrow> (s + d, f, i, dt))"

definition push_feedback :: "string \<Rightarrow> acc \<Rightarrow> acc" where
  "push_feedback m a = (case a of (s, f, i, dt) \<Rightarrow> (s, f @ [m], i, dt))"

definition push_issue :: "string \<Rightarrow> acc \<Rightarrow> acc" where
  "push_issue m a = (case a of (s, f, i, dt) \<Rightarrow> (s, f, i @ [m], dt))"

definition push_detail :: "string \<Rightarrow> acc \<Rightarrow> acc" where
  "push_detail m a = (case a of (s, f, i, dt) \<Rightarrow> (s, f, i, dt @ [m]))"

text \<open>\<open>score = Math.min(100, Math.max(0, score))\<close>.\<close>

definition clamp_score :: "acc \<Rightarrow> acc" where
  "clamp_score a = (case a of (s, f, i, dt) \<Rightarrow> (min 100 (max 0 s), f, i, dt))"

definition plain_result :: "acc \<Rightarrow> string \<Rightarrow> skillAnalysis" where
  "plain_result a assessment =
     (case a of (s, f, i, dt) \<Rightarrow>
        \<lparr>score = s, feedback = f, issues = i, details = dt, honestAssessment = assessment,
         stats = None, limitation = None, sa_wordCount = None, uniqueWords = None\<rparr>)"

text \<open>\<open>xs.join(sep)\<close>.\<close>

fun join :: "string \<Rightarrow> string list \<Rightarrow> string" where
  "join sep [] = []"
| "join sep [x] = x"
| "join sep (x # y # ys) = x @ sep @ join sep (y # ys)"

definition getPronunciationAssessment :: "int \<Rightarrow> string" where
  "getPronunciationAssessment s =
     (if s \<ge> 80 then ''Your pronunciation is excellent. Native speakers understand you easily.''
      else if s \<ge> 65 then ''Good pronunciation with minor issues. Keep practicing difficult sounds.''
      else if s \<ge> 50 then ''Pronunciation is developing. Practice with native audio regularly.''
      else ''Focus on basic pronunciation. Record yourself and compare with natives.'')"

definition analyzePronunciation :: "features \<Rightarrow> transcriptAnalysis option \<Rightarrow> skillAnalysis" where
  "analyzePronunciation ft transcription =
     (let a = (50, [], [], []);
          clar = (if clarity ft = 0 then 50 else clarity ft);
          a = (if clar \<ge> 80 then
                 push_detail ''Your articulation is clear and easy to understand''
                   (push_feedback ''Excellent speech clarity'' (add_score 25 a))
               else if clar \<ge> 60 then push_feedback ''Good clarity overall'' (add_score 15 a)
               else if clar \<ge> 40 then push_issue ''Work on clearer articulation'' (add_score 5 a)
               else push_issue ''Pronunciation needs significant improvement'' (add_score (- 10) a));
          pitchVar = pitchVariation ft;
          a = (if pitchVar \<ge> 0.25 \<and> pitchVar \<le> 0.55 then
                 push_feedback ''Natural intonation'' (add_score 15 a)
               else if pitchVar < 0.15 then
                 push_issue ''Speech sounds monotone - add expression'' (add_score (- 12) a)
               else if pitchVar > 0.7 then
                 push_issue ''Intonation too varied'' (add_score (- 5) a)
               else add_score 8 a);
          a = (if volumeConsistency ft \<ge> 0.6 then
                 push_feedback ''Consistent volume'' (add_score 10 a)
               else if volumeConsistency ft < 0.3 then
                 push_issue ''Volume varies too much'' (add_score (- 5) a)
               else a);
          a = (case transcription of
                 None \<Rightarrow> a
               | Some tr \<Rightarrow>
                   if wordCount tr > 0 then
                     (let avgWordLen = js_or (avgWordLength tr) (Fin 0)
                      in if js_ge avgWordLen (Fin 4.5) then
                           push_detail ''Clear pronunciation of longer words detected''
                             (add_score 5 a)
                         else a)
                   else a);
          a = clamp_score a
      in plain_result a (getPronunciationAssessment (fst a)))"

definition getFluencyAssessment :: "int \<Rightarrow> string" where
  "getFluencyAssessment s =
     (if s \<ge> 80 then ''Excellent fluency! You speak naturally and smoothly.''
      else if s \<ge> 65 then ''Good fluency with some hesitations. Practice speaking without pausing.''
      else if s \<ge> 50 then ''Fluency needs work. Try shadowing exercises.''
      else ''Significant fluency issues. Focus on reducing pauses and filler words.'')"

definition analyzeFluency :: "features \<Rightarrow> transcriptAnalysis option \<Rightarrow> skillAnalysis" where
  "analyzeFluency ft transcription =
     (let a = (50, [], [], []);
          dur = duration ft;
          pauseCount = totalPauses ft;
          pauseDur = js_or (pauseDuration ft) (Fin 0);
          rate = js_or (speechRate ft) (Fin 100);
          pauseRatio = (if dur > 0 then js_div pauseDur (Fin dur) else Fin 0);
          a = (if js_lt pauseRatio (Fin 0.15) \<and> pauseCount \<ge> 3 \<and> pauseCount \<le> 12 then
                 push_feedback ''Excellent fluency with natural pauses'' (add_score 28 a)
               else if js_lt pauseRatio (Fin 0.25) \<and> pauseCount \<le> 18 then
                 push_feedback ''Good fluency overall'' (add_score 18 a)
               else if js_lt pauseRatio (Fin 0.35) then
                 push_issue ''Reduce hesitations between thoughts'' (add_score 8 a)
               else
                 push_issue ''Too many pauses - practice speaking more smoothly''
                   (add_score (- 10) a));
          a = (if js_ge rate (Fin 110) \<and> js_le rate (Fin 150) then
                 push_feedback ''Natural speaking pace'' (add_score 18 a)
               else if js_ge rate (Fin 90) \<and> js_lt rate (Fin 110) then
                 push_issue ''Try speaking a bit faster'' (add_score 10 a)
               else if js_gt rate (Fin 150) \<and> js_le rate (Fin 170) then
                 push_issue ''Slow down slightly'' (add_score 10 a)
               else if js_lt rate (Fin 90) then
                 push_issue ''Speaking too slowly'' (add_score (- 5) a)
               else
                 push_issue ''Speaking too fast - listeners may struggle'' (add_score (- 10) a));
          a = (case transcription of
                 None \<Rightarrow> a
               | Some tr \<Rightarrow>
                   (let fillerRat = js_or (fillerRatio tr) (Fin 0)
                    in if js_gt fillerRat (Fin 8) then
                         push_detail (''Common fillers: '' @ join '', '' (map fst (fillerWords tr)))
                           (push_issue (''Too many filler words ('' @ show_nat (fillerWordCount tr)
                                          @ '' detected)'')
                              (add_score (- 15) a))
                       else if js_gt fillerRat (Fin 4) then
                         push_issue ''Reduce filler words like \"um\", \"uh\", \"like\"''
                           (add_score (- 8) a)
                       else if js_le fillerRat (Fin 2) then
                         push_feedback ''Minimal filler words - great fluency!'' (add_score 5 a)
                       else a));
          a = clamp_score a
      in (plain_result a (getFluencyAssessment (fst a)))
           \<lparr>stats := Some \<lparr>st_pauseRatio = js_toFixed 1 (js_mul pauseRatio (Fin 100)),
                            st_speechRate = rate,
                            st_pauseCount = pauseCount,
                            st_fillerWords = (case transcription of None \<Rightarrow> 0
                                              | Some tr \<Rightarrow> fillerWordCount tr)\<rparr>\<rparr>)"

text \<open>
  The lookup \<open>vocabMap[topic]\<close> in the object literal of nine keys. A topic that names a
  property which every object inherits (\<open>constructor\<close>, \<open>toString\<close> and the like) finds
  that property in the program and prints it; such topics are outside the model, which
  looks among the nine keys only. The text enters the \<open>details\<close> of the vocabulary
  analysis and no score.
\<close>

definition getTopicVocabulary :: "string \<Rightarrow> string" where
  "getTopicVocabulary topic =
     (case map_of
        [(''introduction'', ''personal, background, experience, interests, hobbies''),
         (''education'', ''academic, learning, skills, courses, degree, university''),
         (''work'', ''career, professional, responsibilities, achievements, colleagues''),
         (''technology'', ''digital, innovation, devices, software, artificial intelligence''),
         (''environment'', ''nature, sustainability, climate, ecosystem, pollution''),
         (''health'', ''wellness, fitness, nutrition, mental health, lifestyle''),
         (''travel'', ''culture, destinations, experiences, adventure, tourism''),
         (''sports'', ''competition, training, teamwork, fitness, championship''),
         (''food'', ''cuisine, cooking, ingredients, nutrition, restaurant'')] topic of
        Some v \<Rightarrow> v
      | None \<Rightarrow> ''general vocabulary'')"

definition getVocabularyAssessment :: "int \<Rightarrow> string" where
  "getVocabularyAssessment s =
     (if s \<ge> 80 then ''Excellent vocabulary range! You use varied and sophisticated words.''
      else if s \<ge> 65 then ''Good vocabulary. Continue learning new words daily.''
      else if s \<ge> 50 then ''Vocabulary is developing. Read more to expand your word bank.''
      else ''Limited vocabulary. Focus on learning common words and phrases first.'')"

text \<open>\<open>n || null\<close> on a count.\<close>

definition count_or_null :: "nat \<Rightarrow> nat option" where
  "count_or_null n = (if n = 0 then None else Some n)"

definition analyzeVocabulary :: "features \<Rightarrow> string \<Rightarrow> transcriptAnalysis option \<Rightarrow> skillAnalysis" where
  "analyzeVocabulary ft topic transcription =
     (let a = (45, [], [], []);
          withWords = (case transcription of None \<Rightarrow> None
                       | Some tr \<Rightarrow> if wordCount tr > 0 then Some tr else None);
          a = (case withWords of
                 Some tr \<Rightarrow>
                   (let wordCnt = wordCount tr;
                        a = (if wordCnt \<ge> 150 then
                               push_feedback (''Good vocabulary demonstration ('' @ show_nat wordCnt
                                                @ '' words)'') (add_score 20 a)
                             else if wordCnt \<ge> 80 then
                               push_feedback (''Adequate word count ('' @ show_nat wordCnt
                                                @ '' words)'') (add_score 12 a)
                             else
                               push_issue ''Speak more to demonstrate vocabulary range''
                                 (add_score 5 a));
                        richness = js_or (vocabularyRichness tr) (Fin 0);
                        a = (if js_ge richness (Fin 65) then
                               push_detail (show_nat (uniqueWordCount tr) @ '' unique words used'')
                                 (push_feedback ''Excellent word variety'' (add_score 18 a))
                             else if js_ge richness (Fin 45) then
                               push_feedback ''Good word variety'' (add_score 12 a)
                             else
                               push_issue ''Use more varied vocabulary - avoid repetition''
                                 (add_score 5 a))
                    in if advancedWordCount tr \<ge> 5 then
                         push_detail (''Advanced words: '' @ join '', '' (take 5 (advancedWords tr)))
                           (push_feedback ''Strong use of advanced vocabulary'' (add_score 15 a))
                       else if advancedWordCount tr \<ge> 2 then
                         push_feedback ''Some advanced vocabulary used'' (add_score 8 a)
                       else
                         push_issue ''Try using more sophisticated vocabulary'' a)
               | None \<Rightarrow>
                   (let dur = duration ft;
                        rate = js_or (speechRate ft) (Fin 100);
                        estimatedWords =
                          js_round (js_mul (js_sub (Fin dur) (js_or (pauseDuration ft) (Fin 0)))
                                           (js_div rate (Fin 60)))
                    in if js_ge estimatedWords (Fin 150) then
                         push_feedback ''Good vocabulary range demonstrated'' (add_score 25 a)
                       else if js_ge estimatedWords (Fin 80) then add_score 15 a
                       else push_issue ''Speak longer to show vocabulary'' a));
          a = (if topic \<noteq> [] \<and> topic \<noteq> ''custom'' then
                 push_detail (''Topic vocabulary expected: '' @ getTopicVocabulary topic)
                   (add_score 5 a)
               else a);
          a = clamp_score a
      in (plain_result a (getVocabularyAssessment (fst a)))
           \<lparr>sa_wordCount := (case transcription of None \<Rightarrow> None
                             | Some tr \<Rightarrow> count_or_null (wordCount tr)),
            uniqueWords := (case transcription of None \<Rightarrow> None
                            | Some tr \<Rightarrow> count_or_null (uniqueWordCount tr))\<rparr>)"

definition getGrammarAssessment :: "int \<Rightarrow> string" where
  "getGrammarAssessment s =
     (if s \<ge> 80 then ''Grammar appears strong with complex structures used correctly.''
      else if s \<ge> 65 then ''Good grammar control. Focus on advanced structures.''
      else if s \<ge> 50 then ''Grammar is adequate. Review common error patterns.''
      else ''Grammar needs attention. Start with basic sentence structures.'')"

definition analyzeGrammar :: "features \<Rightarrow> transcriptAnalysis option \<Rightarrow> skillAnalysis" where
  "analyzeGrammar ft transcription =
     (let a = (50, [], [], []);
          a = (if volumeConsistency ft \<ge> 0.6 \<and> js_ge (speechRate ft) (Fin 100) then
                 push_feedback ''Confident speech suggests good grammar control'' (add_score 15 a)
               else if volumeConsistency ft \<ge> 0.4 then add_score 8 a
               else push_issue ''Hesitation may indicate grammar uncertainty'' a);
          a = (case transcription of
                 None \<Rightarrow> a
               | Some tr \<Rightarrow>
                   (let gi = grammarIndicators tr;
                        a = (if hasComplexSentences gi then
                               push_feedback ''Uses complex sentence structures'' (add_score 12 a)
                             else a);
                        a = (if hasConditionals gi then
                               push_feedback ''Good use of conditionals'' (add_score 8 a)
                             else a);
                        a = (if hasPerfectTenses gi then
                               push_feedback ''Uses perfect tenses correctly'' (add_score 8 a)
                             else a);
                        a = (if hasPassiveVoice gi then
                               push_detail ''Passive voice structures detected'' (add_score 5 a)
                             else a);
                        avgWords = avgWordsPerSentence tr
                    in if avgWords \<ge> 12 then
                         push_feedback ''Good sentence complexity'' (add_score 8 a)
                       else if avgWords < 6 then
                         push_issue ''Try using longer, more complex sentences'' a
                       else a));
          a = (if clarity ft \<ge> 70 then
                 push_feedback ''Clear speech structure'' (add_score 8 a)
               else a);
          a = clamp_score a;
          assessment = getGrammarAssessment (fst a);
          a = push_detail ''Note: Full grammar accuracy requires human review'' a
      in (plain_result a assessment)
           \<lparr>limitation := Some ''Automated analysis may miss some grammar errors''\<rparr>)"

definition getCoherenceAssessment :: "int \<Rightarrow> string" where
  "getCoherenceAssessment s =
     (if s \<ge> 80 then ''Excellent organization! Ideas flow logically.''
      else if s \<ge> 65 then ''Good coherence. Use more transition words.''
      else if s \<ge> 50 then ''Organization needs work. Plan before speaking.''
      else ''Focus on clear structure: introduction, body, conclusion.'')"

definition analyzeCoherence :: "features \<Rightarrow> transcriptAnalysis option \<Rightarrow> skillAnalysis" where
  "analyzeCoherence ft transcription =
     (let a = (45, [], [], []);
          pScore = (if pauseScore ft = 0 then 50 else pauseScore ft);
          a = (if pScore \<ge> 85 then
                 push_feedback ''Well-organized speech structure'' (add_score 20 a)
               else if pScore \<ge> 70 then push_feedback ''Good organization'' (add_score 15 a)
               else push_issue ''Organize ideas more clearly'' (add_score 5 a));
          pitchVar = pitchVariation ft;
          a = (if pitchVar \<ge> 0.2 \<and> pitchVar \<le> 0.5 then
                 push_feedback ''Good use of emphasis'' (add_score 12 a)
               else a);
          a = (case transcription of
                 None \<Rightarrow> a
               | Some tr \<Rightarrow>
                   (let ci = coherenceIndicators tr;
                        a = (if hasIntroduction ci then
                               push_feedback ''Clear introduction detected'' (add_score 10 a)
                             else push_issue ''Start with a clear introduction'' a);
                        a = (if hasConclusion ci then
                               push_feedback ''Good conclusion'' (add_score 10 a)
                             else push_issue ''End with a clear conclusion'' a)
                    in if hasTransitionWords ci \<and> length (transitionWordsUsed ci) > 0 then
                         push_feedback (''Uses transition words: ''
                                          @ join '', '' (take 3 (transitionWordsUsed ci)))
                           (add_score (int (length (transitionWordsUsed ci)) * 3) a)
                       else
                         push_issue ''Use linking words: however, therefore, moreover'' a));
          dur = duration ft;
          a = (if dur \<ge> 60 \<and> dur \<le> 180 then add_score 5 a
               else if dur < 30 then
                 push_issue ''Response too short for coherent development'' (add_score (- 10) a)
               else a);
          a = clamp_score a
      in plain_result a (getCoherenceAssessment (fst a)))"

record timeAnalysis =
  tm_score :: int
  tm_feedback :: string
  tm_issues :: "string list"
  tm_duration :: real
  tm_minutes :: real

definition analyzeTimeManagement :: "features \<Rightarrow> timeAnalysis" where
  "analyzeTimeManagement ft =
     (let dur = duration ft;
          minutes = dur / 60;
          (s, fb, iss) =
            (if minutes < 0.5 then
               (30, ''Too short! Aim for 1-2 minutes minimum'',
                [''Expand your response with more details''])
             else if minutes \<ge> 0.5 \<and> minutes < 1 then
               (55, ''A bit short. Add more content'', [''Include examples and explanations''])
             else if minutes \<ge> 1 \<and> minutes \<le> 2.5 then
               (95, ''Perfect timing! Well-balanced response'', [])
             else if minutes > 2.5 \<and> minutes \<le> 3.5 then
               (82, ''Good length, slightly long'', [''Be more concise''])
             else
               (65, ''Too long. Focus on key points'', [''Practice summarizing'']))
      in \<lparr>tm_score = s, tm_feedback = fb, tm_issues = iss, tm_duration = dur,
          tm_minutes = toFixed 1 minutes\<rparr>)"

subsection \<open>Double-precision arithmetic of the weighted sum\<close>

text \<open>
  The weighted sum of the overall score is rounded to an integer afterwards, and the
  integer depends on the rounding errors of the sum. The sum is therefore modelled
  operation by operation: a double is the rational number it denotes, and every
  addition and multiplication returns the exact result rounded to the nearest double,
  ties to the even significand. \<open>fl\<close> is this rounding for the normal range of binary64
  (53-bit significands; overflow and subnormal numbers do not occur with scores and
  weights of this size). \<open>ilog2 x\<close> is the binary exponent of a positive \<open>x\<close>, that is
  \<open>2 ^ ilog2 x \<le> x < 2 ^ (ilog2 x + 1)\<close>.
\<close>

type_synonym double = rat

definition round_half_even :: "rat \<Rightarrow> int" where
  "round_half_even y =
     (let f = \<lfloor>y\<rfloor>; d = y - of_int f
      in if d < 1 / 2 then f else if d > 1 / 2 then f + 1 else if even f then f else f + 1)"

function ilog2_up :: "rat \<Rightarrow> int" where
  "ilog2_up x = (if x < 2 then 0 else 1 + ilog2_up (x / 2))"
  by pat_completeness auto
termination
proof (relation "measure (\<lambda>x. nat \<lfloor>x\<rfloor>)")
  show "wf (measure (\<lambda>x::rat. nat \<lfloor>x\<rfloor>))" by simp
next
  fix x :: rat
  assume "\<not> x < 2"
  then have "\<lfloor>x / 2\<rfloor> < \<lfloor>x\<rfloor>" "0 < \<lfloor>x\<rfloor>"
    by (simp_all add: floor_less_iff) linarith+
  then show "(x / 2, x) \<in> measure (\<lambda>x. nat \<lfloor>x\<rfloor>)" by simp
qed

function ilog2_down :: "rat \<Rightarrow> int" where
  "ilog2_down x = (if x \<le> 0 \<or> 1 \<le> x then 0 else ilog2_down (2 * x) - 1)"
  by pat_completeness auto
termination
proof (relation "measure (\<lambda>x. nat \<lceil>1 / x\<rceil>)")
  show "wf (measure (\<lambda>x::rat. nat \<lceil>1 / x\<rceil>))" by simp
next
  fix x :: rat
  assume a: "\<not> (x \<le> 0 \<or> 1 \<le> x)"
  then have x: "0 < x" "x < 1" by simp_all
  then have y: "1 < 1 / x" by simp
  have "1 / (2 * x) = (1 / x) / 2" by simp
  moreover have "\<lceil>(1 / x) / 2\<rceil> < \<lceil>1 / x\<rceil>"
  proof -
    have "2 \<le> \<lceil>1 / x\<rceil>" using y by (simp add: le_ceiling_iff)
    then have two: "(2::rat) \<le> of_int \<lceil>1 / x\<rceil>" by (metis of_int_le_iff of_int_numeral)
    have "(1 / x) / 2 \<le> of_int \<lceil>1 / x\<rceil> / 2" by (simp add: divide_right_mono)
    also have "\<dots> \<le> of_int (\<lceil>1 / x\<rceil> - 1)" using two by simp
    finally have "\<lceil>(1 / x) / 2\<rceil> \<le> \<lceil>1 / x\<rceil> - 1" by (rule ceiling_le)
    then show ?thesis by linarith
  qed
  moreover have "0 < \<lceil>1 / x\<rceil>" using x by (simp add: less_ceiling_iff)
  ultimately show "(2 * x, x) \<in> measure (\<lambda>x. nat \<lceil>1 / x\<rceil>)"
    by (simp add: mult.commute)
qed

declare ilog2_up.simps [simp del]
declare ilog2_down.simps [simp del]

definition ilog2 :: "rat \<Rightarrow> int" where
  "ilog2 x = (if 1 \<le> x then ilog2_up x else ilog2_down x)"

definition pow2 :: "int \<Rightarrow> rat" where
  "pow2 e = (if 0 \<le> e then 2 ^ nat e else 1 / 2 ^ nat (- e))"

definition fl :: "rat \<Rightarrow> double" where
  "fl x =
     (if x = 0 then 0
      else let q = pow2 (ilog2 \<bar>x\<bar> - 52) in of_int (round_half_even (x / q)) * q)"

definition dadd :: "double \<Rightarrow> double \<Rightarrow> double" where
  "dadd a b = fl (a + b)"

definition dmul :: "double \<Rightarrow> double \<Rightarrow> double" where
  "dmul a b = fl (a * b)"

subsection \<open>Overall score and level\<close>

text \<open>
  The weights as the decimal numbers of the literal; the program holds the nearest
  doubles. \<open>this.weights[key] || 0.1\<close> is the default 0.1 for a key without a weight.
\<close>

definition weights :: "(string \<times> rat) list" where
  "weights =
     [(''pronunciation'', 22 / 100),
      (''fluency'', 22 / 100),
      (''vocabulary'', 18 / 100),
      (''grammar'', 15 / 100),
      (''coherence'', 13 / 100),
      (''time'', 10 / 100)]"

definition weight_of :: "string \<Rightarrow> double" where
  "weight_of key =
     (case map_of weights key of
        Some w \<Rightarrow> (if w = 0 then fl (1 / 10) else fl w)
      | None \<Rightarrow> fl (1 / 10))"

text \<open>
  The loop of \<open>calculateOverallScore\<close> over the entries of the score object, in
  iteration order. A score is an integer below \<open>2 ^ 53\<close> in magnitude and is a double
  as it stands; \<open>scores[key] || 0\<close> leaves it unchanged.
\<close>

fun overall_loop :: "(string \<times> int) list \<Rightarrow> double \<Rightarrow> double" where
  "overall_loop [] totalScore = totalScore"
| "overall_loop ((key, s) # rest) totalScore =
     overall_loop rest (dadd totalScore (dmul (of_int s) (weight_of key)))"

definition calculateOverallScore :: "(string \<times> int) list \<Rightarrow> int" where
  "calculateOverallScore scores = \<lfloor>min 100 (max 0 (overall_loop scores 0)) + 1 / 2\<rfloor>"

datatype level = A1 | A2 | B1 | B2 | C1 | C2

record threshold =
  min_thr :: int
  max_thr :: int
  description :: string

definition levelThresholds :: "(level \<times> threshold) list" where
  "levelThresholds =
    [(A1, \<lparr>min_thr = 0, max_thr = 28, description = ''Beginner - Basic words and phrases''\<rparr>),
     (A2, \<lparr>min_thr = 28, max_thr = 42, description = ''Elementary - Simple everyday expressions''\<rparr>),
     (B1, \<lparr>min_thr = 42, max_thr = 58, description = ''Intermediate - Familiar topics with effort''\<rparr>),
     (B2, \<lparr>min_thr = 58, max_thr = 73, description = ''Upper Intermediate - Fluent interaction''\<rparr>),
     (C1, \<lparr>min_thr = 73, max_thr = 87, description = ''Advanced - Complex topics with ease''\<rparr>),
     (C2, \<lparr>min_thr = 87, max_thr = 100, description = ''Mastery - Near-native proficiency''\<rparr>)]"

text \<open>The test of one band: \<open>overallScore >= range.min && overallScore < range.max\<close>.\<close>

definition in_band :: "int \<Rightarrow> threshold \<Rightarrow> bool" where
  "in_band overallScore rng \<longleftrightarrow> overallScore \<ge> min_thr rng \<and> overallScore < max_thr rng"

text \<open>The loop of \<open>determineLevel\<close> returns at the first band that matches.\<close>

fun determineLevel_loop :: "(level \<times> threshold) list \<Rightarrow> int \<Rightarrow> level option" where
  "determineLevel_loop [] overallScore = None"
| "determineLevel_loop ((lvl, rng) # rest) overallScore =
     (if in_band overallScore rng then Some lvl else determineLevel_loop rest overallScore)"

definition determineLevel :: "int \<Rightarrow> level" where
  "determineLevel overallScore =
     (case determineLevel_loop levelThresholds overallScore of
        Some lvl \<Rightarrow> lvl
      | None \<Rightarrow> C2)"

text \<open>The bands that contain a score, in table order.\<close>

definition matching_levels :: "int \<Rightarrow> level list" where
  "matching_levels s = map fst (filter (\<lambda>(lvl, rng). in_band s rng) levelThresholds)"

subsection \<open>The weighted sum in exact arithmetic\<close>

text \<open>
  The formula of the overall score read over the rational numbers, with the decimal
  weights: \<open>exact_sum\<close> is the sum of score times weight, \<open>exact_overall\<close> rounds its clamped
  value, a tie upwards. \<open>half_integer b\<close> says that \<open>b\<close> lies exactly between two
  integers. \<open>eps\<close> bounds the rounding error of one operation on doubles below 256.
\<close>

definition exact_weight :: "string \<Rightarrow> rat" where
  "exact_weight key =
     (case map_of weights key of
        Some w \<Rightarrow> (if w = 0 then 1 / 10 else w)
      | None \<Rightarrow> 1 / 10)"

definition exact_sum :: "(string \<times> int) list \<Rightarrow> rat" where
  "exact_sum es = (\<Sum>(key, s)\<leftarrow>es. of_int s * exact_weight key)"

definition eps :: rat where
  "eps = pow2 (- 46)"

definition half_integer :: "rat \<Rightarrow> bool" where
  "half_integer b \<longleftrightarrow> b + 1 / 2 = of_int \<lfloor>b + 1 / 2\<rfloor>"

definition exact_overall :: "(string \<times> int) list \<Rightarrow> int" where
  "exact_overall es = \<lfloor>min 100 (max 0 (exact_sum es)) + 1 / 2\<rfloor>"

subsection \<open>Errors, strengths and recommendations\<close>

definition toUpper :: "char \<Rightarrow> char" where
  "toUpper c =
     (case map_of (zip ''abcdefghijklmnopqrstuvwxyz'' ''ABCDEFGHIJKLMNOPQRSTUVWXYZ'') c of
        Some u \<Rightarrow> u
      | None \<Rightarrow> c)"

text \<open>\<open>name.charAt(0).toUpperCase() + name.slice(1)\<close>.\<close>

definition capitalize :: "string \<Rightarrow> string" where
  "capitalize name = (case name of [] \<Rightarrow> [] | c # cs \<Rightarrow> toUpper c # cs)"

record errorEntry =
  er_type :: string
  severity :: string
  er_description :: string
  examples :: "string list"

definition skillMap :: "(string \<times> string) list" where
  "skillMap =
     [(''pronunciation'', ''Pronunciation''),
      (''fluency'', ''Fluency''),
      (''vocabulary'', ''Vocabulary''),
      (''grammar'', ''Grammar''),
      (''coherence'', ''Coherence'')]"

text \<open>The rank of a severity in the comparison function of the sort.\<close>

definition severity_order :: "string \<Rightarrow> int" where
  "severity_order s = (if s = ''high'' then 0 else if s = ''medium'' then 1 else 2)"

text \<open>
  \<open>Array.prototype.sort\<close> is stable; with a comparison function that is the difference of
  two keys it is the stable sort by the key, \<open>sort_key\<close>.
\<close>

definition identifyErrors :: "(string \<times> skillAnalysis) list \<Rightarrow> errorEntry list" where
  "identifyErrors analyses =
     (let threshold = 58;
          errors =
            concat (map (\<lambda>(skill, d).
                      case map_of skillMap skill of
                        Some name \<Rightarrow>
                          if score d < threshold then
                            [\<lparr>er_type = name,
                              severity = (if score d < 40 then ''high''
                                          else if score d < 50 then ''medium'' else ''low''),
                              er_description = honestAssessment d,
                              examples = issues d\<rparr>]
                          else []
                      | None \<Rightarrow> []) analyses)
      in sort_key (\<lambda>e. severity_order (severity e)) errors)"

record skillScore =
  sk_name :: string
  sk_score :: int

record strengthsWeaknesses =
  sw_strengths :: "skillScore list"
  sw_weaknesses :: "skillScore list"

text \<open>\<open>xs.slice(-3)\<close>: the last three elements.\<close>

definition last3 :: "'a list \<Rightarrow> 'a list" where
  "last3 xs = drop (length xs - 3) xs"

definition identifyStrengthsWeaknesses :: "(string \<times> skillAnalysis) list \<Rightarrow> strengthsWeaknesses" where
  "identifyStrengthsWeaknesses analyses =
     (let skills = map (\<lambda>(name, d). \<lparr>sk_name = capitalize name, sk_score = score d\<rparr>) analyses;
          skills = sort_key (\<lambda>s. - sk_score s) skills
      in \<lparr>sw_strengths = take 3 (filter (\<lambda>s. sk_score s \<ge> 65) skills),
          sw_weaknesses = rev (last3 (filter (\<lambda>s. sk_score s < 58) skills))\<rparr>)"

record recommendation =
  priority :: string
  category :: string
  title :: string
  rec_description :: string
  actions :: "string list"

definition recs :: "(string \<times> string \<times> string \<times> string list) list" where
  "recs =
     [(''pronunciation'',
       ''Improve Pronunciation'', ''Focus on clear articulation'',
       [''Use pronunciation apps (ELSA, Speechling)'',
        ''Record yourself and compare with natives'',
        ''Practice difficult sounds daily'',
        ''Learn word stress patterns'']),
      (''fluency'',
       ''Improve Fluency'', ''Speak more smoothly'',
       [''Practice shadowing technique'',
        ''Read aloud for 10 minutes daily'',
        ''Reduce thinking time before speaking'',
        ''Learn common phrases and expressions'']),
      (''vocabulary'',
       ''Expand Vocabulary'', ''Learn and use more words'',
       [''Learn 5-10 new words daily'',
        ''Use spaced repetition apps'',
        ''Read extensively on various topics'',
        ''Use new words in sentences immediately'']),
      (''grammar'',
       ''Strengthen Grammar'', ''Master sentence structures'',
       [''Focus on one grammar rule per week'',
        ''Practice with grammar exercises'',
        ''Write sentences using new structures'',
        ''Get feedback from teachers or apps'']),
      (''coherence'',
       ''Improve Organization'', ''Structure your ideas clearly'',
       [''Use introduction-body-conclusion structure'',
        ''Learn transition words'',
        ''Plan your response before speaking'',
        ''Practice IELTS/TOEFL speaking tasks''])]"

text \<open>
  For a skill without an entry in \<open>recs\<close> the result has the priority and the category
  only; the absent properties are empty here. The program calls it with the five skills.
\<close>

definition getSkillRecommendation :: "string \<Rightarrow> skillAnalysis \<Rightarrow> recommendation" where
  "getSkillRecommendation skill d =
     (let (t, ds, acts) = (case map_of recs skill of Some r \<Rightarrow> r | None \<Rightarrow> ([], [], []))
      in \<lparr>priority = (if score d < 50 then ''high'' else ''medium''),
          category = capitalize skill,
          title = t,
          rec_description = ds,
          actions = acts\<rparr>)"

definition fillerRecommendation :: "nat \<Rightarrow> recommendation" where
  "fillerRecommendation n =
     \<lparr>priority = ''high'',
      category = ''Fluency'',
      title = ''Reduce Filler Words'',
      rec_description = ''You used '' @ show_nat n @ '' filler words'',
      actions = [''Practice pausing silently instead of saying \"um\"'',
                 ''Record yourself and count filler words'',
                 ''Slow down and think before speaking'',
                 ''Use transition words instead of fillers'']\<rparr>"

definition foundationRecommendation :: recommendation where
  "foundationRecommendation =
     \<lparr>priority = ''high'',
      category = ''Foundation'',
      title = ''Build Strong Foundation'',
      rec_description = ''Focus on basic skills first'',
      actions = [''Learn the 1000 most common English words'',
                 ''Practice basic sentence patterns daily'',
                 ''Watch English videos with subtitles'',
                 ''Speak English for 10 minutes every day'']\<rparr>"

text \<open>
  The argument object of \<open>generateRecommendations\<close>; the function reads the five
  analyses, the level and the transcript analysis.
\<close>

record recommendationData =
  rd_pronunciation :: skillAnalysis
  rd_fluency :: skillAnalysis
  rd_vocabulary :: skillAnalysis
  rd_grammar :: skillAnalysis
  rd_coherence :: skillAnalysis
  rd_level :: level
  rd_transcriptionAnalysis :: "transcriptAnalysis option"

text \<open>The five skills sorted by ascending score.\<close>

definition sorted_skills :: "recommendationData \<Rightarrow> (string \<times> skillAnalysis) list" where
  "sorted_skills d =
     sort_key (\<lambda>(name, a). score a)
       [(''pronunciation'', rd_pronunciation d),
        (''fluency'', rd_fluency d),
        (''vocabulary'', rd_vocabulary d),
        (''grammar'', rd_grammar d),
        (''coherence'', rd_coherence d)]"

definition generateRecommendations :: "recommendationData \<Rightarrow> recommendation list" where
  "generateRecommendations d =
     (let skills = sorted_skills d;
          weakest = skills ! 0;
          second = skills ! 1;
          recommendations = [];
          recommendations =
            (if score (snd weakest) < 65
             then recommendations @ [getSkillRecommendation (fst weakest) (snd weakest)]
             else recommendations);
          recommendations =
            (if score (snd second) < 60
             then recommendations @ [getSkillRecommendation (fst second) (snd second)]
             else recommendations);
          recommendations =
            (case rd_transcriptionAnalysis d of
               None \<Rightarrow> recommendations
             | Some tr \<Rightarrow>
                 if fillerWordCount tr > 5
                 then recommendations @ [fillerRecommendation (fillerWordCount tr)]
                 else recommendations);
          recommendations =
            (if rd_level d = A1 \<or> rd_level d = A2
             then recommendations @ [foundationRecommendation]
             else recommendations)
      in take 4 recommendations)"

subsection \<open>Detailed feedback\<close>

text \<open>
  \<open>generateDetailedFeedback\<close> returns one HTML string: a constant template per section,
  with the values below put in. The model keeps the sections and their values.
  \<open>a % b\<close> is the remainder of the division truncated towards zero.
\<close>

definition js_rem :: "real \<Rightarrow> real \<Rightarrow> real" where
  "js_rem a b = a - b * (sgn (a / b) * of_int \<lfloor>\<bar>a / b\<bar>\<rfloor>)"

datatype feedbackSection =
    OverallSection level string int int int "nat option"
  | TranscriptionSection string nat nat nat "nat option"
  | SkillSection string int string "string option" "fluencyStats option" string string

text \<open>The paragraph of a skill: the feedback sentences joined, with a final full stop.\<close>

definition feedback_paragraph :: "string list \<Rightarrow> string" where
  "feedback_paragraph fb =
     (let feedbackText = join ''. '' fb
      in if feedbackText \<noteq> [] \<and> last feedbackText \<noteq> CHR ''.''
         then feedbackText @ ''.'' else feedbackText)"

definition truthy_string :: "string \<Rightarrow> string option" where
  "truthy_string s = (if s = [] then None else Some s)"

definition skill_section :: "string \<Rightarrow> skillAnalysis \<Rightarrow> feedbackSection" where
  "skill_section name d =
     SkillSection name (score d) (feedback_paragraph (feedback d))
       (truthy_string (honestAssessment d)) (stats d)
       (join ''. '' (issues d)) (join ''. '' (details d))"

text \<open>
  The time analysis has a feedback string instead of a list, no assessment, no statistics
  and no details.
\<close>

definition time_section :: "timeAnalysis \<Rightarrow> feedbackSection" where
  "time_section t =
     SkillSection ''Time'' (tm_score t)
       (if tm_feedback t \<noteq> [] \<and> last (tm_feedback t) \<noteq> CHR ''.''
        then tm_feedback t @ ''.'' else tm_feedback t)
       None None (join ''. '' (tm_issues t)) []"

record feedbackData =
  fd_pronunciation :: skillAnalysis
  fd_fluency :: skillAnalysis
  fd_vocabulary :: skillAnalysis
  fd_grammar :: skillAnalysis
  fd_coherence :: skillAnalysis
  fd_timeManagement :: timeAnalysis
  fd_level :: level
  fd_overallScore :: int
  fd_audioFeatures :: features
  fd_transcriptionAnalysis :: "transcriptAnalysis option"

definition level_description :: "level \<Rightarrow> string" where
  "level_description lvl =
     (case map_of levelThresholds lvl of Some t \<Rightarrow> description t | None \<Rightarrow> [])"

definition generateDetailedFeedback :: "feedbackData \<Rightarrow> feedbackSection list" where
  "generateDetailedFeedback d =
     (let dur = duration (fd_audioFeatures d);
          parts = [OverallSection (fd_level d) (level_description (fd_level d))
                     (fd_overallScore d) \<lfloor>dur / 60\<rfloor> \<lfloor>js_rem dur 60\<rfloor>
                     (map_option wordCount (fd_transcriptionAnalysis d))];
          parts = (case fd_transcriptionAnalysis d of
                     None \<Rightarrow> parts
                   | Some tr \<Rightarrow>
                       if rawText tr \<noteq> [] then
                         parts @ [TranscriptionSection (rawText tr) (wordCount tr)
                                    (uniqueWordCount tr) (sentenceCount tr)
                                    (if fillerWordCount tr > 0 then Some (fillerWordCount tr)
                                     else None)]
                       else parts)
      in parts @
         [skill_section ''Pronunciation'' (fd_pronunciation d),
          skill_section ''Fluency'' (fd_fluency d),
          skill_section ''Vocabulary'' (fd_vocabulary d),
          skill_section ''Grammar'' (fd_grammar d),
          skill_section ''Coherence'' (fd_coherence d),
          time_section (fd_timeManagement d)])"

subsection \<open>The full analysis\<close>

record assessment =
  as_level :: level
  levelDescription :: string
  overallScore :: int
  scores :: "(string \<times> int) list"
  detailedFeedback :: "feedbackSection list"
  errors :: "errorEntry list"
  recommendations :: "recommendation list"
  strengths :: "skillScore list"
  weaknesses :: "skillScore list"
  as_topic :: string
  as_duration :: real
  transcription :: "transcriptAnalysis option"
  timestamp :: string
  analysisVersion :: string

text \<open>
  \<open>analyzeFullSpeaking\<close> reads the clock once, for the \<open>timestamp\<close> field: \<open>now\<close> is the
  string that \<open>new Date().toISOString()\<close> returns during the call. The body is wrapped in
  a \<open>try\<close> that rethrows; with features, a topic and a transcript analysis of the types
  above no statement of the body throws.
\<close>

definition analyzeFullSpeaking ::
    "string \<Rightarrow> features \<Rightarrow> string \<Rightarrow> transcriptAnalysis option \<Rightarrow> assessment" where
  "analyzeFullSpeaking now audioFeatures topic transcriptionAnalysis =
     (let pronunciation = analyzePronunciation audioFeatures transcriptionAnalysis;
          fluency = analyzeFluency audioFeatures transcriptionAnalysis;
          vocabulary = analyzeVocabulary audioFeatures topic transcriptionAnalysis;
          grammar = analyzeGrammar audioFeatures transcriptionAnalysis;
          coherence = analyzeCoherence audioFeatures transcriptionAnalysis;
          timeManagement = analyzeTimeManagement audioFeatures;
          overall = calculateOverallScore
                      [(''pronunciation'', score pronunciation),
                       (''fluency'', score fluency),
                       (''vocabulary'', score vocabulary),
                       (''grammar'', score grammar),
                       (''coherence'', score coherence),
                       (''time'', tm_score timeManagement)];
          lvl = determineLevel overall;
          five = [(''pronunciation'', pronunciation), (''fluency'', fluency),
                  (''vocabulary'', vocabulary), (''grammar'', grammar),
                  (''coherence'', coherence)];
          errs = identifyErrors five;
          recommends = generateRecommendations
                         \<lparr>rd_pronunciation = pronunciation, rd_fluency = fluency,
                          rd_vocabulary = vocabulary, rd_grammar = grammar,
                          rd_coherence = coherence, rd_level = lvl,
                          rd_transcriptionAnalysis = transcriptionAnalysis\<rparr>;
          detailed = generateDetailedFeedback
                       \<lparr>fd_pronunciation = pronunciation, fd_fluency = fluency,
                        fd_vocabulary = vocabulary, fd_grammar = grammar,
                        fd_coherence = coherence, fd_timeManagement = timeManagement,
                        fd_level = lvl, fd_overallScore = overall,
                        fd_audioFeatures = audioFeatures,
                        fd_transcriptionAnalysis = transcriptionAnalysis\<rparr>;
          analysis = identifyStrengthsWeaknesses five
      in \<lparr>as_level = lvl,
          levelDescription = level_description lvl,
          overallScore = overall,
          scores = [(''pronunciation'', score pronunciation),
                    (''vocabulary'', score vocabulary),
                    (''fluency'', score fluency),
                    (''grammar'', score grammar),
                    (''time'', tm_score timeManagement),
                    (''coherence'', score coherence)],
          detailedFeedback = detailed,
          errors = errs,
          recommendations = recommends,
          strengths = sw_strengths analysis,
          weaknesses = sw_weaknesses analysis,
          as_topic = topic,
          as_duration = duration audioFeatures,
          transcription = transcriptionAnalysis,
          timestamp = now,
          analysisVersion = ''4.0''\<rparr>)"

text \<open>
  The object that \<open>analyzeFullSpeaking\<close> passes to \<open>calculateOverallScore\<close>: the six skill
  scores, in the order of the literal.
\<close>

definition skill_entries :: "features \<Rightarrow> string \<Rightarrow> transcriptAnalysis option \<Rightarrow> (string \<times> int) list" where
  "skill_entries ft topic tr =
     [(''pronunciation'', score (analyzePronunciation ft tr)),
      (''fluency'', score (analyzeFluency ft tr)),
      (''vocabulary'', score (analyzeVocabulary ft topic tr)),
      (''grammar'', score (analyzeGrammar ft tr)),
      (''coherence'', score (analyzeCoherence ft tr)),
      (''time'', tm_score (analyzeTimeManagement ft))]"

text \<open>A map of six skill scores with the keys in the order of that literal.\<close>

definition six :: "int \<Rightarrow> int \<Rightarrow> int \<Rightarrow> int \<Rightarrow> int \<Rightarrow> int \<Rightarrow> (string \<times> int) list" where
  "six p f v g c t =
     [(''pronunciation'', p), (''fluency'', f), (''vocabulary'', v),
      (''grammar'', g), (''coherence'', c), (''time'', t)]"

subsection \<open>Example feature sets\<close>

text \<open>
  Two feature sets as the extractor computes them. \<open>slow_speech\<close>: 170 s with three
  pauses of 85 s in all, hence 75 words per minute, a low volume consistency of 0.1 and
  a pitch variation of 0.52, which give the clarity 53. \<open>fluent_speech\<close>: 120 s with
  five pauses of 12 s in all, hence 135 words per minute, volume consistency 0.9 and
  pitch variation 0.3, which give the clarity 93.
\<close>

definition slow_speech :: features where
  "slow_speech =
     \<lparr>duration = 170, durationScore = 95,
      durationFeedback = ''Perfect duration! Well-balanced speaking time'',
      averageVolume = Fin 0.05, volumeConsistency = 0.1, energyLevel = Fin 0.06,
      totalPauses = 3, pauseDuration = Fin 85, pauseScore = 95,
      speechRate = Fin 75, speechRateScore = 70,
      pitchVariation = 0.52, pitchScore = 95, clarity = 53\<rparr>"

definition fluent_speech :: features where
  "fluent_speech =
     \<lparr>duration = 120, durationScore = 95,
      durationFeedback = ''Perfect duration! Well-balanced speaking time'',
      averageVolume = Fin 0.2, volumeConsistency = 0.9, energyLevel = Fin 0.21,
      totalPauses = 5, pauseDuration = Fin 12, pauseScore = 95,
      speechRate = Fin 135, speechRateScore = 95,
      pitchVariation = 0.3, pitchScore = 95, clarity = 93\<rparr>"

text \<open>
  An argument of \<open>generateRecommendations\<close>: analyses with the scores 65, 35, 65, 50 and
  70 and no messages, the level A2, and a transcript analysis with seven filler words.
\<close>

definition example_analysis :: "int \<Rightarrow> skillAnalysis" where
  "example_analysis s = plain_result (s, [], [], []) []"

definition example_data :: recommendationData where
  "example_data =
     \<lparr>rd_pronunciation = example_analysis 65,
      rd_fluency = example_analysis 35,
      rd_vocabulary = example_analysis 65,
      rd_grammar = example_analysis 50,
      rd_coherence = example_analysis 70,
      rd_level = A2,
      rd_transcriptionAnalysis = Some (getEmptyAnalysis\<lparr>fillerWordCount := 7\<rparr>)\<rparr>"

chapter \<open>Verification\<close>

section \<open>Level determination\<close>

lemma determineLevel_loop_table:
  "determineLevel_loop levelThresholds s =
     (if s < 0 then None else if s < 28 then Some A1 else if s < 42 then Some A2
      else if s < 58 then Some B1 else if s < 73 then Some B2 else if s < 87 then Some C1
      else if s < 100 then Some C2 else None)"
  by (simp add: levelThresholds_def in_band_def)

lemma matching_levels_table:
  "matching_levels s =
     (if s < 0 then [] else if s < 28 then [A1] else if s < 42 then [A2]
      else if s < 58 then [B1] else if s < 73 then [B2] else if s < 87 then [C1]
      else if s < 100 then [C2] else [])"
  by (simp add: matching_levels_def levelThresholds_def in_band_def)

text \<open>
  Claim C3. Every integer overall score from 0 to 100 gets the level of the half-open band
  that contains it: A1 on [0,28), A2 on [28,42), B1 on [42,58), B2 on [58,73), C1 on
  [73,87), C2 on [87,100). Below 100 exactly one band of the table contains the score and
  it is the one returned; 100 lies in no band and the fallback returns C2. In particular
  58 gives B2 and 100 gives C2.
\<close>

theorem determineLevel_total_nonoverlapping:
  assumes "0 \<le> s" and "s \<le> 100"
  shows "determineLevel s =
           (if s < 28 then A1 else if s < 42 then A2 else if s < 58 then B1
            else if s < 73 then B2 else if s < 87 then C1 else C2)
         \<and> matching_levels s = (if s = 100 then [] else [determineLevel s])
         \<and> determineLevel 58 = B2
         \<and> determineLevel 100 = C2"
  using assms
  by (simp add: determineLevel_def determineLevel_loop_table matching_levels_table)

theorem determineLevel_total_nonoverlapping_witness:
  "determineLevel 58 = B2 \<and> matching_levels 58 = [B2]
   \<and> determineLevel 100 = C2 \<and> matching_levels 100 = []
   \<and> determineLevel 0 = A1 \<and> matching_levels 0 = [A1]"
  using determineLevel_total_nonoverlapping [of 58]
    determineLevel_total_nonoverlapping [of 100]
    determineLevel_total_nonoverlapping [of 0]
  by simp

section \<open>Pause detection\<close>












lemma pause_loop_replicate:
  "pause_loop mps rate (replicate n 0) (c, t, cur) = (c, t, cur + int n)"
  by (induction n arbitrary: cur) (auto simp: threshold_silence_def)



lemma detectPauses_replicate:
  "detectPauses (replicate n 0) rate =
     (if int n \<ge> minPauseSamples rate
      then \<lparr>pa_count = 1,
            pa_totalDuration = js_toFixed 2 (js_add (Fin 0) (js_div (Fin (real n)) (Fin rate))),
            pa_score = 60\<rparr>
      else \<lparr>pa_count = 0, pa_totalDuration = Fin 0, pa_score = 60\<rparr>)"
  by (simp add: detectPauses_def pause_loop_replicate pause_band_def js_toFixed_def toFixed_def Let_def)



section \<open>The feature set\<close>

lemma pause_loop_total:
  assumes "0 < rate"
  shows "0 \<le> cur \<Longrightarrow> 0 \<le> t \<Longrightarrow>
     \<exists>c' t' cur'. pause_loop mps rate xs (c, Fin t, cur) = (c', Fin t', cur')
        \<and> 0 \<le> cur' \<and> 0 \<le> t'
        \<and> t' + real_of_int cur' / rate \<le> t + (real_of_int cur + real (length xs)) / rate"
proof (induction xs arbitrary: c t cur)
  case Nil
  then show ?case by simp
next
  case (Cons x xs)
  show ?case
  proof (cases "\<bar>x\<bar> < threshold_silence")
    case True
    have "0 \<le> cur + 1" using Cons.prems by simp
    from Cons.IH[OF this Cons.prems(2), of c] True show ?thesis
      by (simp add: add.commute add.left_commute)
  next
    case False
    show ?thesis
    proof (cases "cur \<ge> mps")
      case True
      have "0 \<le> t + real_of_int cur / rate" using Cons.prems assms by simp
      from Cons.IH[OF _ this, of 0 "c + 1"] obtain c' t' cur' where
        h: "pause_loop mps rate xs (c + 1, Fin (t + real_of_int cur / rate), 0) = (c', Fin t', cur')"
           "0 \<le> cur'" "0 \<le> t'"
           "t' + real_of_int cur' / rate \<le> t + real_of_int cur / rate + (real (length xs)) / rate"
        by auto
      have "t + real_of_int cur / rate + (real (length xs)) / rate
            \<le> t + (real_of_int cur + real (length (x # xs))) / rate"
        using assms by (simp add: field_simps)
      with h False True assms show ?thesis by auto
    next
      case nb: False
      from Cons.IH[OF _ Cons.prems(2), of 0 c] obtain c' t' cur' where
        h: "pause_loop mps rate xs (c, Fin t, 0) = (c', Fin t', cur')"
           "0 \<le> cur'" "0 \<le> t'"
           "t' + real_of_int cur' / rate \<le> t + (real (length xs)) / rate"
        by auto
      have "t + (real (length xs)) / rate
            \<le> t + (real_of_int cur + real (length (x # xs))) / rate"
        using assms Cons.prems by (simp add: field_simps)
      with h False nb show ?thesis by auto
    qed
  qed
qed

lemma toFixed_nonneg:
  assumes "0 \<le> x"
  shows "0 \<le> toFixed k x" and "toFixed k x \<le> x + 1 / (2 * 10 ^ k)"
proof -
  have f: "0 \<le> \<lfloor>\<bar>x\<bar> * 10 ^ k + 1 / 2\<rfloor>" using assms by simp
  show "0 \<le> toFixed k x"
    using assms f by (cases "x = 0") (simp_all add: toFixed_def sgn_if)
  have "real_of_int \<lfloor>\<bar>x\<bar> * 10 ^ k + 1 / 2\<rfloor> \<le> x * 10 ^ k + 1 / 2"
    using assms by (metis abs_of_nonneg of_int_floor_le)
  then have "real_of_int \<lfloor>\<bar>x\<bar> * 10 ^ k + 1 / 2\<rfloor> / 10 ^ k \<le> (x * 10 ^ k + 1 / 2) / 10 ^ k"
    by (simp add: divide_right_mono)
  also have "\<dots> = x + 1 / (2 * 10 ^ k)" by (simp add: field_simps)
  finally show "toFixed k x \<le> x + 1 / (2 * 10 ^ k)"
    using assms by (cases "x = 0") (simp_all add: toFixed_def sgn_if)
qed

lemma detectPauses_total:
  assumes "0 < rate"
  shows "\<exists>T. pa_totalDuration (detectPauses data rate) = Fin (toFixed 2 T)
             \<and> 0 \<le> T \<and> T \<le> real (length data) / rate"
proof -
  from pause_loop_total[OF assms, of 0 0 "minPauseSamples rate" data 0]
  obtain c' t' cur' where
    h: "pause_loop (minPauseSamples rate) rate data (0, Fin 0, 0) = (c', Fin t', cur')"
       "0 \<le> cur'" "0 \<le> t'" "t' + real_of_int cur' / rate \<le> real (length data) / rate"
    by auto
  have nn: "0 \<le> real_of_int cur' / rate" using h(2) assms by simp
  show ?thesis
  proof (cases "cur' \<ge> minPauseSamples rate")
    case True
    have "pa_totalDuration (detectPauses data rate) = Fin (toFixed 2 (t' + real_of_int cur' / rate))"
      using h(1) True assms by (simp add: detectPauses_def js_toFixed_def Let_def)
    with h nn show ?thesis by (intro exI[of _ "t' + real_of_int cur' / rate"]) simp
  next
    case False
    have "pa_totalDuration (detectPauses data rate) = Fin (toFixed 2 t')"
      using h(1) False by (simp add: detectPauses_def js_toFixed_def Let_def)
    with h nn show ?thesis by (intro exI[of _ t']) simp
  qed
qed

lemma pauseDuration_bound:
  assumes "0 < rate"
  shows "\<exists>p. pa_totalDuration (detectPauses data rate) = Fin p
             \<and> 0 \<le> p \<and> p \<le> real (length data) / rate + 1 / 200"
proof -
  from detectPauses_total[OF assms, of data] obtain T where
    T: "pa_totalDuration (detectPauses data rate) = Fin (toFixed 2 T)" "0 \<le> T"
       "T \<le> real (length data) / rate" by auto
  from toFixed_nonneg[OF T(2), of 2] T(3) have "0 \<le> toFixed 2 T" "toFixed 2 T \<le> real (length data) / rate + 1 / 200"
    by simp_all
  with T(1) show ?thesis by auto
qed

lemma da_score_range: "da_score (analyzeDuration d) \<in> {40, 60, 95, 85, 70}"
  by (simp add: analyzeDuration_def Let_def)

lemma pa_score_range: "pa_score (detectPauses data rate) \<in> {60, 95, 80, 65}"
  by (simp add: detectPauses_def Let_def pause_band_def split: prod.splits)

lemma sr_score_range: "sr_score (estimateSpeechRate d pa) \<in> {70, 95, 85, 65}"
  by (simp add: estimateSpeechRate_def Let_def)

lemma pi_score_range: "analyzePitch data rate = Some p \<Longrightarrow> pi_score p \<in> {50, 65, 95, 75}"
  by (auto simp: analyzePitch_def Let_def pitch_band_def split: option.splits if_splits)

lemma clarity_range: "0 \<le> estimateClarity v p \<and> estimateClarity v p \<le> 100"
proof -
  define c where "c = min 100 (max 0 (va_consistency v * 50 + real_of_int (pi_score p) / 2))"
  have "0 \<le> c" "c \<le> 100" by (simp_all add: c_def)
  then have "0 \<le> \<lfloor>c + 1 / 2\<rfloor>" "\<lfloor>c + 1 / 2\<rfloor> \<le> 100"
    by (simp_all add: floor_le_iff le_floor_iff)
  then show ?thesis by (simp add: estimateClarity_def Math_round_def Let_def c_def)
qed

text \<open>
  Claim C6, as the code has it. For a buffer with a positive sample rate whose duration
  is its length divided by the rate, the features that the extractor returns have a
  finite pause duration between 0 and the duration plus 0.005 (the sum of the counted
  runs is at most the duration, and it is then rounded to two decimals), and the fields
  \<open>durationScore\<close>, \<open>pauseScore\<close>, \<open>speechRateScore\<close>, \<open>pitchScore\<close> and \<open>clarity\<close> are
  integers from 0 to 100.
\<close>

theorem extractFeatures_invariant:
  assumes "0 < sampleRate b" and "wellformed_buffer b"
    and "extractFeatures (Some b) = Some (Inr f)"
  shows "(\<exists>p. pauseDuration f = Fin p \<and> 0 \<le> p \<and> p \<le> duration f + 1 / 200)
         \<and> 0 \<le> durationScore f \<and> durationScore f \<le> 100
         \<and> 0 \<le> pauseScore f \<and> pauseScore f \<le> 100
         \<and> 0 \<le> speechRateScore f \<and> speechRateScore f \<le> 100
         \<and> 0 \<le> pitchScore f \<and> pitchScore f \<le> 100
         \<and> 0 \<le> clarity f \<and> clarity f \<le> 100"
proof -
  from assms(3) obtain p where p: "analyzePitch (channelData b) (sampleRate b) = Some p"
    by (auto simp: extractFeatures_def Let_def split: option.splits)
  with assms(3) have f: "f = \<lparr>duration = ab_duration b,
       durationScore = da_score (analyzeDuration (ab_duration b)),
       durationFeedback = da_feedback (analyzeDuration (ab_duration b)),
       averageVolume = va_average (analyzeVolume (channelData b)),
       volumeConsistency = va_consistency (analyzeVolume (channelData b)),
       energyLevel = va_energy (analyzeVolume (channelData b)),
       totalPauses = pa_count (detectPauses (channelData b) (sampleRate b)),
       pauseDuration = pa_totalDuration (detectPauses (channelData b) (sampleRate b)),
       pauseScore = pa_score (detectPauses (channelData b) (sampleRate b)),
       speechRate = sr_rate (estimateSpeechRate (ab_duration b) (detectPauses (channelData b) (sampleRate b))),
       speechRateScore = sr_score (estimateSpeechRate (ab_duration b) (detectPauses (channelData b) (sampleRate b))),
       pitchVariation = pi_variation p,
       pitchScore = pi_score p,
       clarity = estimateClarity (analyzeVolume (channelData b)) p\<rparr>"
    by (simp add: extractFeatures_def Let_def)
  have 1: "\<exists>q. pauseDuration f = Fin q \<and> 0 \<le> q \<and> q \<le> duration f + 1 / 200"
    using pauseDuration_bound[OF assms(1), of "channelData b"] assms(2)
    by (simp add: f wellformed_buffer_def)
  have 2: "0 \<le> durationScore f \<and> durationScore f \<le> 100"
    using da_score_range[of "ab_duration b"] by (auto simp: f)
  have 3: "0 \<le> pauseScore f \<and> pauseScore f \<le> 100"
    using pa_score_range[of "channelData b" "sampleRate b"] by (auto simp: f)
  have 4: "0 \<le> speechRateScore f \<and> speechRateScore f \<le> 100"
    using sr_score_range[of "ab_duration b" "detectPauses (channelData b) (sampleRate b)"] by (auto simp: f)
  have 5: "0 \<le> pitchScore f \<and> pitchScore f \<le> 100"
    using pi_score_range[OF p] by (auto simp: f)
  have 6: "0 \<le> clarity f \<and> clarity f \<le> 100"
    using clarity_range[of "analyzeVolume (channelData b)" p] by (simp add: f)
  from 1 2 3 4 5 6 show ?thesis by blast
qed

section \<open>Outcomes of feature extraction\<close>

lemma volume_loop_replicate: "volume_loop (replicate n 0) (0, 0) = (0, 0)"
  by (induction n) auto

lemma toFixed_0: "toFixed k 0 = 0"
  by (simp add: toFixed_def)

lemma analyzeVolume_silent:
  "0 < n \<Longrightarrow> analyzeVolume (replicate n 0) = \<lparr>va_average = Fin 0, va_consistency = 0, va_energy = Fin 0\<rparr>"
  by (simp add: analyzeVolume_def volume_loop_replicate toFixed_0)


lemma pitch_window_silent: "pitch_window (replicate n 0) ws i = 0"
proof -
  have "(\<Sum>j\<leftarrow>[a..<min b n]. \<bar>replicate n (0::real) ! j\<bar>) = (\<Sum>j\<leftarrow>[a..<min b n]. 0)" for a b
    by (rule arg_cong[where f = sum_list], rule map_cong) auto
  then show ?thesis by (simp add: pitch_window_def Let_def)
qed

lemma pitchValues_silent: "pitchValues (replicate n 0) ws k = []"
  by (simp add: pitchValues_def pitch_window_silent)

lemma windowSize_bounds:
  "\<lfloor>rate * 0.05\<rfloor> = (0::int) \<longleftrightarrow> 0 \<le> rate \<and> rate < 20"
  by (simp add: floor_eq_iff) 

lemma analyzePitch_None:
  "analyzePitch data rate = None \<longleftrightarrow> 0 \<le> rate \<and> rate < 20 \<and> data \<noteq> []"
proof -
  define ws where "ws = \<lfloor>rate * 0.05\<rfloor>"
  have w: "ws = 0 \<longleftrightarrow> 0 \<le> rate \<and> rate < 20"
    unfolding ws_def by (rule windowSize_bounds)
  have "loop_bound (pitch_windows (length data) ws) = None \<longleftrightarrow> ws = 0 \<and> data \<noteq> []"
    by (auto simp: pitch_windows_def js_floor_def inf_signed_def)
  moreover have "analyzePitch data rate = None \<longleftrightarrow> loop_bound (pitch_windows (length data) ws) = None"
    unfolding analyzePitch_def ws_def[symmetric] by (auto simp: Let_def split: option.splits)
  ultimately show ?thesis using w by simp
qed

lemma analyzePitch_silent:
  assumes "20 \<le> rate"
  shows "analyzePitch (replicate n 0) rate = Some \<lparr>pi_variation = 0, pi_score = 50\<rparr>"
proof -
  from assms have "analyzePitch (replicate n 0) rate \<noteq> None"
    by (simp add: analyzePitch_None)
  then show ?thesis
    by (auto simp: analyzePitch_def Let_def pitchValues_silent split: option.splits)
qed

lemma extractFeatures_Some:
  "extractFeatures (Some b) =
     (case analyzePitch (channelData b) (sampleRate b) of
        None \<Rightarrow> None
      | Some p \<Rightarrow> Some (Inr \<lparr>duration = ab_duration b,
       durationScore = da_score (analyzeDuration (ab_duration b)),
       durationFeedback = da_feedback (analyzeDuration (ab_duration b)),
       averageVolume = va_average (analyzeVolume (channelData b)),
       volumeConsistency = va_consistency (analyzeVolume (channelData b)),
       energyLevel = va_energy (analyzeVolume (channelData b)),
       totalPauses = pa_count (detectPauses (channelData b) (sampleRate b)),
       pauseDuration = pa_totalDuration (detectPauses (channelData b) (sampleRate b)),
       pauseScore = pa_score (detectPauses (channelData b) (sampleRate b)),
       speechRate = sr_rate (estimateSpeechRate (ab_duration b) (detectPauses (channelData b) (sampleRate b))),
       speechRateScore = sr_score (estimateSpeechRate (ab_duration b) (detectPauses (channelData b) (sampleRate b))),
       pitchVariation = pi_variation p,
       pitchScore = pi_score p,
       clarity = estimateClarity (analyzeVolume (channelData b)) p\<rparr>))"
  by (simp add: extractFeatures_def Let_def split: option.splits)





lemma extractFeatures_silent:
  assumes "20 \<le> rate" and "0 < n"
  shows "extractFeatures (Some \<lparr>ab_duration = d, sampleRate = rate, channelData = replicate n 0\<rparr>)
     = Some (Inr \<lparr>duration = d,
         durationScore = da_score (analyzeDuration d),
         durationFeedback = da_feedback (analyzeDuration d),
         averageVolume = Fin 0, volumeConsistency = 0, energyLevel = Fin 0,
         totalPauses = pa_count (detectPauses (replicate n 0) rate),
         pauseDuration = pa_totalDuration (detectPauses (replicate n 0) rate),
         pauseScore = pa_score (detectPauses (replicate n 0) rate),
         speechRate = sr_rate (estimateSpeechRate d (detectPauses (replicate n 0) rate)),
         speechRateScore = sr_score (estimateSpeechRate d (detectPauses (replicate n 0) rate)),
         pitchVariation = 0, pitchScore = 50, clarity = 25\<rparr>)"
proof -
  have "estimateClarity \<lparr>va_average = Fin 0, va_consistency = 0, va_energy = Fin 0\<rparr> \<lparr>pi_variation = 0, pi_score = 50\<rparr> = 25"
    by (simp add: estimateClarity_def Math_round_def)
  then show ?thesis
    by (simp add: extractFeatures_Some analyzePitch_silent[OF assms(1)] analyzeVolume_silent[OF assms(2)])
qed

text \<open>
  A silent buffer of 14688 samples at 48000 Hz lasts 0.306 s. It is one pause of 0.306 s,
  which \<open>toFixed(2)\<close> rounds to 0.31: the pause duration of the feature set exceeds its
  duration.
\<close>

theorem pauseDuration_exceeds_duration_counterexample:
  "wellformed_buffer \<lparr>ab_duration = 0.306, sampleRate = 48000, channelData = replicate 14688 0\<rparr>
   \<and> extractFeatures (Some \<lparr>ab_duration = 0.306, sampleRate = 48000, channelData = replicate 14688 0\<rparr>)
     = Some (Inr \<lparr>duration = 0.306, durationScore = 40,
                 durationFeedback = ''Too short. Try to speak for at least 1-2 minutes'',
                 averageVolume = Fin 0, volumeConsistency = 0, energyLevel = Fin 0,
                 totalPauses = 1, pauseDuration = Fin 0.31, pauseScore = 60,
                 speechRate = Fin 490, speechRateScore = 65,
                 pitchVariation = 0, pitchScore = 50, clarity = 25\<rparr>)
   \<and> \<not> js_le (Fin 0.31) (Fin 0.306)"
proof -
  have d: "detectPauses (replicate 14688 0) 48000 = \<lparr>pa_count = 1, pa_totalDuration = Fin 0.31, pa_score = 60\<rparr>"
    by (simp add: detectPauses_replicate minPauseSamples_def minPauseDuration_def js_toFixed_def toFixed_def)
  have s: "estimateSpeechRate 0.306 \<lparr>pa_count = 1, pa_totalDuration = Fin 0.31, pa_score = 60\<rparr>
            = \<lparr>sr_rate = Fin 490, sr_score = 65, sr_feedback = ''Speaking too fast. Slow down for better clarity''\<rparr>"
    by (simp add: estimateSpeechRate_def js_sub_def js_round_def Math_round_def js_ge_def js_gt_def)
  have a: "da_score (analyzeDuration 0.306) = 40" "da_feedback (analyzeDuration 0.306) = ''Too short. Try to speak for at least 1-2 minutes''"
    by (simp_all add: analyzeDuration_def)
  have w: "wellformed_buffer \<lparr>ab_duration = 0.306, sampleRate = 48000, channelData = replicate 14688 0\<rparr>"
    by (simp add: wellformed_buffer_def)
  have "extractFeatures (Some \<lparr>ab_duration = 0.306, sampleRate = 48000, channelData = replicate 14688 0\<rparr>)
     = Some (Inr \<lparr>duration = 0.306, durationScore = 40,
                 durationFeedback = ''Too short. Try to speak for at least 1-2 minutes'',
                 averageVolume = Fin 0, volumeConsistency = 0, energyLevel = Fin 0,
                 totalPauses = 1, pauseDuration = Fin 0.31, pauseScore = 60,
                 speechRate = Fin 490, speechRateScore = 65,
                 pitchVariation = 0, pitchScore = 50, clarity = 25\<rparr>)"
    using d s a by (simp add: extractFeatures_silent)
  with w show ?thesis by simp
qed

theorem extractFeatures_invariant_witness:
  "(0::real) < 20
   \<and> wellformed_buffer \<lparr>ab_duration = 0.4, sampleRate = 20, channelData = replicate 8 0\<rparr>
   \<and> extractFeatures (Some \<lparr>ab_duration = 0.4, sampleRate = 20, channelData = replicate 8 0\<rparr>)
       = Some (Inr \<lparr>duration = 0.4, durationScore = 40,
                 durationFeedback = ''Too short. Try to speak for at least 1-2 minutes'',
                 averageVolume = Fin 0, volumeConsistency = 0, energyLevel = Fin 0,
                 totalPauses = 1, pauseDuration = Fin 0.4, pauseScore = 60,
                 speechRate = Fin 375, speechRateScore = 65,
                 pitchVariation = 0, pitchScore = 50, clarity = 25\<rparr>)
   \<and> (\<exists>p. Fin 0.4 = Fin p \<and> 0 \<le> p \<and> p \<le> 0.4 + 1 / 200)"
proof -
  let ?b = "\<lparr>ab_duration = 0.4, sampleRate = 20, channelData = replicate 8 0\<rparr>"
  let ?f = "\<lparr>duration = 0.4, durationScore = 40,
                 durationFeedback = ''Too short. Try to speak for at least 1-2 minutes'',
                 averageVolume = Fin 0, volumeConsistency = 0, energyLevel = Fin 0,
                 totalPauses = 1, pauseDuration = Fin 0.4, pauseScore = 60,
                 speechRate = Fin 375, speechRateScore = 65,
                 pitchVariation = 0, pitchScore = 50, clarity = 25\<rparr>"
  have d: "detectPauses (replicate 8 0) 20 = \<lparr>pa_count = 1, pa_totalDuration = Fin 0.4, pa_score = 60\<rparr>"
    by (simp add: detectPauses_replicate minPauseSamples_def minPauseDuration_def js_toFixed_def toFixed_def)
  have s: "estimateSpeechRate 0.4 \<lparr>pa_count = 1, pa_totalDuration = Fin 0.4, pa_score = 60\<rparr>
            = \<lparr>sr_rate = Fin 375, sr_score = 65, sr_feedback = ''Speaking too fast. Slow down for better clarity''\<rparr>"
    by (simp add: estimateSpeechRate_def js_sub_def js_round_def Math_round_def js_ge_def js_gt_def)
  have a: "da_score (analyzeDuration 0.4) = 40" "da_feedback (analyzeDuration 0.4) = ''Too short. Try to speak for at least 1-2 minutes''"
    by (simp_all add: analyzeDuration_def)
  have w: "wellformed_buffer ?b"
    by (simp add: wellformed_buffer_def)
  have e: "extractFeatures (Some ?b) = Some (Inr ?f)"
    using d s a by (simp add: extractFeatures_silent)
  have r: "(0::real) < sampleRate ?b" by simp
  from extractFeatures_invariant [OF r w e] w e show ?thesis by simp
qed

section \<open>Transcript analysis\<close>

lemma gi_score_range:
  "50 \<le> gi_score (analyzeGrammarIndicators text) \<and> gi_score (analyzeGrammarIndicators text) \<le> 100"
  by (simp add: analyzeGrammarIndicators_def Let_def)

lemma ci_score_range:
  "50 \<le> ci_score (analyzeCoherenceIndicators text) \<and> ci_score (analyzeCoherenceIndicators text) \<le> 100"
  by (simp add: analyzeCoherenceIndicators_def Let_def)

lemma analyzeTranscript_indicators:
  "text \<noteq> [] \<Longrightarrow>
     grammarIndicators (analyzeTranscript (Some text)) = analyzeGrammarIndicators text
     \<and> coherenceIndicators (analyzeTranscript (Some text)) = analyzeCoherenceIndicators text"
  by (simp add: analyzeTranscript_def Let_def split: prod.splits)

text \<open>
  Claim C10. For every non-empty text the grammar indicator score and the coherence
  indicator score of the transcript analysis lie between 50 and 100: both start at
  50, the adjustments only add, and the result is capped at 100.
\<close>

theorem indicator_scores_at_least_50:
  assumes "text \<noteq> []"
  shows "50 \<le> gi_score (grammarIndicators (analyzeTranscript (Some text)))
         \<and> gi_score (grammarIndicators (analyzeTranscript (Some text))) \<le> 100
         \<and> 50 \<le> ci_score (coherenceIndicators (analyzeTranscript (Some text)))
         \<and> ci_score (coherenceIndicators (analyzeTranscript (Some text))) \<le> 100"
  using analyzeTranscript_indicators[OF assms] gi_score_range[of "text"] ci_score_range[of "text"]
  by simp

lemma coherence_example:
  "analyzeCoherenceIndicators
     ''Firstly, however, I would like to talk about my job. In conclusion, it was great.''
   = \<lparr>hasIntroduction = True, hasConclusion = True, hasTransitionWords = True,
      transitionWordsUsed = [''firstly'', ''however''], ci_score = 90\<rparr>"
  by code_simp

lemma grammar_example:
  "analyzeGrammarIndicators
     ''Firstly, however, I would like to talk about my job. In conclusion, it was great.''
   = \<lparr>hasComplexSentences = False, hasConditionals = False, hasPerfectTenses = False,
      hasPassiveVoice = False, gi_score = 50\<rparr>"
  by code_simp

theorem indicator_scores_at_least_50_witness:
  "''Firstly, however, I would like to talk about my job. In conclusion, it was great.'' \<noteq> []
   \<and> gi_score (grammarIndicators (analyzeTranscript (Some
        ''Firstly, however, I would like to talk about my job. In conclusion, it was great.''))) = 50
   \<and> ci_score (coherenceIndicators (analyzeTranscript (Some
        ''Firstly, however, I would like to talk about my job. In conclusion, it was great.''))) = 90
   \<and> (50::int) \<le> 90 \<and> (90::int) \<le> 100"
proof -
  let ?t = "''Firstly, however, I would like to talk about my job. In conclusion, it was great.''"
  have ne: "?t \<noteq> []" by simp
  from indicator_scores_at_least_50 [OF ne] analyzeTranscript_indicators [OF ne]
  show ?thesis by (simp add: coherence_example grammar_example)
qed

text \<open>
  Claim C5 at a text of one space. The text is not empty, so the empty analysis is not
  used; it has no word, and the vocabulary richness, the filler ratio and the mean word
  length are \<open>0 / 0\<close>, printed as \<open>"NaN"\<close>. The empty and the absent text give the empty
  analysis, with richness and filler ratio 0.
\<close>

theorem analyzeTranscript_blank_text:
  "analyzeTranscript (Some '' '') =
     \<lparr>wordCount = 0, uniqueWordCount = 0, vocabularyRichness = NaN,
      sentenceCount = 0, avgWordsPerSentence = 0, avgWordLength = NaN,
      fillerWordCount = 0, fillerWords = [], fillerRatio = NaN,
      advancedWords = [], advancedWordCount = 0,
      grammarIndicators =
        \<lparr>hasComplexSentences = False, hasConditionals = False,
         hasPerfectTenses = False, hasPassiveVoice = False, gi_score = 50\<rparr>,
      coherenceIndicators =
        \<lparr>hasIntroduction = False, hasConclusion = False,
         hasTransitionWords = False, transitionWordsUsed = [], ci_score = 50\<rparr>,
      rawText = '' ''\<rparr>
   \<and> analyzeTranscript (Some '''') = getEmptyAnalysis
   \<and> analyzeTranscript None = getEmptyAnalysis
   \<and> vocabularyRichness getEmptyAnalysis = Fin 0
   \<and> fillerRatio getEmptyAnalysis = Fin 0"
proof -
  have "analyzeTranscript (Some '' '') =
     \<lparr>wordCount = 0, uniqueWordCount = 0, vocabularyRichness = NaN,
      sentenceCount = 0, avgWordsPerSentence = 0, avgWordLength = NaN,
      fillerWordCount = 0, fillerWords = [], fillerRatio = NaN,
      advancedWords = [], advancedWordCount = 0,
      grammarIndicators =
        \<lparr>hasComplexSentences = False, hasConditionals = False,
         hasPerfectTenses = False, hasPassiveVoice = False, gi_score = 50\<rparr>,
      coherenceIndicators =
        \<lparr>hasIntroduction = False, hasConclusion = False,
         hasTransitionWords = False, transitionWordsUsed = [], ci_score = 50\<rparr>,
      rawText = '' ''\<rparr>"
    by code_simp
  then show ?thesis
    by (simp add: analyzeTranscript_def getEmptyAnalysis_def)
qed

section \<open>The overall score\<close>

lemma round_half_even_error: "\<bar>of_int (round_half_even y) - y\<bar> \<le> (1 / 2 :: rat)"
proof -
  have "of_int \<lfloor>y\<rfloor> \<le> y" "y < of_int \<lfloor>y\<rfloor> + 1" by linarith+
  then show ?thesis
    by (auto simp: round_half_even_def Let_def abs_le_iff)
qed

lemma pow2_powi: "pow2 e = 2 powi e"
  by (simp add: pow2_def power_int_def power_one_over inverse_eq_divide)

lemma pow2_pos: "0 < pow2 e"
  by (simp add: pow2_powi)

lemma pow2_mono: "a \<le> b \<Longrightarrow> pow2 a \<le> pow2 b"
  by (simp add: pow2_powi power_int_increasing)

lemma ilog2_up_le: "x < 2 ^ Suc n \<Longrightarrow> ilog2_up x \<le> int n"
proof (induction n arbitrary: x)
  case 0
  then show ?case by (simp add: ilog2_up.simps)
next
  case (Suc n)
  show ?case
  proof (cases "x < 2")
    case True
    then show ?thesis by (simp add: ilog2_up.simps)
  next
    case False
    from Suc.prems have "x / 2 < 2 ^ Suc n" by simp
    from Suc.IH[OF this] False show ?thesis
      by (subst ilog2_up.simps) simp
  qed
qed

lemma ilog2_down_le: "ilog2_down x \<le> 0"
proof (induction x rule: ilog2_down.induct)
  case (1 x)
  show ?case
  proof (cases "x \<le> 0 \<or> 1 \<le> x")
    case True
    then show ?thesis by (subst ilog2_down.simps) simp
  next
    case False
    with 1 have "ilog2_down (2 * x) \<le> 0" by simp
    with False show ?thesis by (subst ilog2_down.simps) simp
  qed
qed

lemma ilog2_le: "x < 2 ^ Suc n \<Longrightarrow> ilog2 x \<le> int n"
  using ilog2_up_le[of x n] ilog2_down_le[of x] by (simp add: ilog2_def)

lemma fl_error:
  assumes "\<bar>x\<bar> < 2 ^ Suc n"
  shows "\<bar>fl x - x\<bar> \<le> pow2 (int n - 53)"
proof (cases "x = 0")
  case True
  then show ?thesis using pow2_pos[of "int n - 53"] by (simp add: fl_def)
next
  case False
  define q where "q = pow2 (ilog2 \<bar>x\<bar> - 52)"
  have qpos: "0 < q" by (simp add: q_def pow2_pos)
  have "q \<le> pow2 (int n - 52)"
    unfolding q_def by (rule pow2_mono) (use ilog2_le[OF assms] in simp)
  moreover have "pow2 (int n - 52) = 2 * pow2 (int n - 53)"
  proof -
    have "pow2 (int n - 52) = pow2 ((int n - 53) + 1)"
      by (rule arg_cong[where f = pow2]) simp
    also have "\<dots> = 2 powi (int n - 53) * 2 powi 1"
      unfolding pow2_powi by (rule power_int_add) simp
    finally show ?thesis by (simp add: pow2_powi)
  qed
  ultimately have qle: "q / 2 \<le> pow2 (int n - 53)" by simp
  have "fl x - x = (of_int (round_half_even (x / q)) - x / q) * q"
    using False qpos by (simp add: fl_def q_def Let_def field_simps)
  then have "\<bar>fl x - x\<bar> = \<bar>of_int (round_half_even (x / q)) - x / q\<bar> * q"
    using qpos by (simp add: abs_mult)
  also have "\<dots> \<le> (1 / 2) * q"
    using round_half_even_error[of "x / q"] qpos by (simp add: mult_right_mono)
  finally show ?thesis using qle by simp
qed


lemma eps_val: "eps = 1 / 2 ^ 46"
  by (simp add: eps_def pow2_def)

lemma fl_error_256: "\<bar>x\<bar> < 256 \<Longrightarrow> \<bar>fl x - x\<bar> \<le> eps"
  using fl_error[of x 7] by (simp add: eps_def)

lemma exact_weight_range: "1 / 10 \<le> exact_weight key \<and> exact_weight key \<le> 22 / 100"
  by (simp add: exact_weight_def weights_def)

lemma weight_of_exact: "weight_of key = fl (exact_weight key)"
  by (simp add: weight_of_def exact_weight_def split: option.splits)

lemma weight_error: "\<bar>weight_of key - exact_weight key\<bar> \<le> eps"
  unfolding weight_of_exact
  by (rule fl_error_256) (use exact_weight_range[of key] in simp)

lemma product_error:
  assumes "0 \<le> s" and "s \<le> 100"
  shows "\<bar>dmul (of_int s) (weight_of key) - of_int s * exact_weight key\<bar> \<le> 101 * eps"
proof -
  define wd where "wd = weight_of key"
  define w where "w = exact_weight key"
  define r :: rat where "r = of_int s"
  have r: "0 \<le> r" "r \<le> 100" using assms by (simp_all add: r_def)
  have we: "\<bar>wd - w\<bar> \<le> eps" unfolding wd_def w_def by (rule weight_error)
  have w: "1 / 10 \<le> w" "w \<le> 22 / 100" using exact_weight_range[of key] by (simp_all add: w_def)
  have e: "0 < eps" "eps \<le> 1 / 100" by (simp_all add: eps_val)
  have wdb: "0 \<le> wd" "wd \<le> 1" using we w e by linarith+
  have "r * wd \<le> 100 * 1" by (rule mult_mono) (use r wdb in simp_all)
  moreover have "0 \<le> r * wd" using r wdb by simp
  ultimately have "\<bar>r * wd\<bar> < 256" by simp
  then have 1: "\<bar>fl (r * wd) - r * wd\<bar> \<le> eps" by (rule fl_error_256)
  have "\<bar>r * wd - r * w\<bar> = r * \<bar>wd - w\<bar>"
    using r by (simp add: abs_mult right_diff_distrib[symmetric])
  also have "\<dots> \<le> 100 * eps" by (rule mult_mono) (use r we e in simp_all)
  finally have 2: "\<bar>r * wd - r * w\<bar> \<le> 100 * eps" .
  from 1 2 have "\<bar>fl (r * wd) - r * w\<bar> \<le> 101 * eps" by linarith
  then show ?thesis by (simp add: dmul_def wd_def w_def r_def)
qed

lemma exact_sum_Cons: "exact_sum ((key, s) # es) = of_int s * exact_weight key + exact_sum es"
  by (simp add: exact_sum_def)

lemma overall_loop_error:
  assumes "\<forall>(key, s) \<in> set es. 0 \<le> s \<and> s \<le> 100"
  shows "0 \<le> T \<Longrightarrow> T + 22 * of_nat (length es) \<le> 200 \<Longrightarrow> 0 \<le> E
         \<Longrightarrow> E + of_nat (length es) * (102 * eps) \<le> 1 \<Longrightarrow> \<bar>t - T\<bar> \<le> E
         \<Longrightarrow> \<bar>overall_loop es t - (T + exact_sum es)\<bar> \<le> E + of_nat (length es) * (102 * eps)"
  using assms
proof (induction es arbitrary: t T E)
  case Nil
  then show ?case by (simp add: exact_sum_def)
next
  case (Cons a es)
  obtain key s where a: "a = (key, s)" by (cases a)
  have s: "0 \<le> s" "s \<le> 100" using Cons.prems(6) by (simp_all add: a)
  define p where "p = dmul (of_int s) (weight_of key)"
  define x where "x = of_int s * exact_weight key"
  have e: "0 < eps" "eps \<le> 1 / 100" by (simp_all add: eps_val)
  have pe: "\<bar>p - x\<bar> \<le> 101 * eps" unfolding p_def x_def by (rule product_error[OF s])
  have xr: "0 \<le> x" "x \<le> 22"
  proof -
    have w: "0 < exact_weight key" "exact_weight key \<le> 22 / 100"
      using exact_weight_range[of key] by linarith+
    have r: "(0::rat) \<le> of_int s" "(of_int s :: rat) \<le> 100" using s by simp_all
    show "0 \<le> x" unfolding x_def using w r by simp
    have "of_int s * exact_weight key \<le> 100 * (22 / 100)"
      by (rule mult_mono) (use w r in simp_all)
    then show "x \<le> 22" by (simp add: x_def)
  qed
  have len: "(of_nat (length (a # es)) :: rat) = of_nat (length es) + 1" by simp
  have nn: "0 \<le> of_nat (length es) * (102 * eps)" using e by simp
  have T22: "T + 22 * of_nat (length es) + 22 \<le> 200"
    using Cons.prems(2) unfolding len by (simp add: algebra_simps)
  have E1: "E + 102 * eps \<le> 1"
  proof -
    have "(of_nat (length es) + 1) * (102 * eps) = of_nat (length es) * (102 * eps) + 102 * eps"
      by (simp add: algebra_simps)
    with Cons.prems(4) nn show ?thesis unfolding len by linarith
  qed
  have "\<bar>t + p\<bar> \<le> \<bar>t - T\<bar> + \<bar>p - x\<bar> + T + x" using Cons.prems(1) xr by linarith
  also have "\<dots> \<le> E + 101 * eps + T + x" using Cons.prems(5) pe by linarith
  also have "\<dots> < 256"
  proof -
    have "(0::rat) \<le> 22 * of_nat (length es)" by simp
    with T22 have "T \<le> 178" by linarith
    with xr E1 e show ?thesis by linarith
  qed
  finally have "\<bar>fl (t + p) - (t + p)\<bar> \<le> eps" by (rule fl_error_256)
  with Cons.prems(5) pe have step: "\<bar>dadd t p - (T + x)\<bar> \<le> E + 102 * eps"
    unfolding dadd_def by linarith
  have rest: "\<forall>(key, s) \<in> set es. 0 \<le> s \<and> s \<le> 100" using Cons.prems(6) by simp
  have "\<bar>overall_loop es (dadd t p) - ((T + x) + exact_sum es)\<bar>
        \<le> (E + 102 * eps) + of_nat (length es) * (102 * eps)"
  proof (rule Cons.IH[OF _ _ _ _ step rest])
    show "0 \<le> T + x" using Cons.prems(1) xr by simp
    show "T + x + 22 * of_nat (length es) \<le> 200" using T22 xr by linarith
    show "0 \<le> E + 102 * eps" using Cons.prems(3) e by simp
    show "E + 102 * eps + of_nat (length es) * (102 * eps) \<le> 1"
      using Cons.prems(4) unfolding len by (simp add: algebra_simps)
  qed
  then show ?case
    unfolding a len by (simp add: exact_sum_Cons p_def x_def algebra_simps)
qed

lemma overall_score_error:
  assumes "\<forall>(key, s) \<in> set es. 0 \<le> s \<and> s \<le> 100" and "length es \<le> 6"
  shows "\<bar>overall_loop es 0 - exact_sum es\<bar> \<le> 1 / 10 ^ 10"
proof -
  have e: "0 < eps" by (simp add: eps_val)
  have l: "(of_nat (length es) :: rat) \<le> 6" using assms(2) by simp
  have b: "of_nat (length es) * (102 * eps) \<le> 6 * (102 * eps)"
    by (rule mult_right_mono) (use l e in simp_all)
  have c: "6 * (102 * eps) \<le> 1 / 10 ^ 10" by (simp add: eps_val)
  have d: "(22::rat) * of_nat (length es) \<le> 132" using l by simp
  have "\<bar>overall_loop es 0 - (0 + exact_sum es)\<bar> \<le> 0 + of_nat (length es) * (102 * eps)"
  proof (rule overall_loop_error[OF assms(1)])
    show "0 + 22 * rat_of_nat (length es) \<le> 200" using d by simp
    have c': "6 * (102 * eps) \<le> 1" by (simp add: eps_val)
    from b c' show "0 + rat_of_nat (length es) * (102 * eps) \<le> 1" by linarith
  qed simp_all
  then have "\<bar>overall_loop es 0 - exact_sum es\<bar> \<le> of_nat (length es) * (102 * eps)"
    by simp
  also note b
  also note c
  finally show ?thesis .
qed

lemma exact_weight_hundredths: "\<exists>k::int. exact_weight key * 100 = of_int k"
proof -
  have "exact_weight key \<in> {22 / 100, 18 / 100, 15 / 100, 13 / 100, 10 / 100}"
    by (simp add: exact_weight_def weights_def)
  then consider "exact_weight key * 100 = of_int 22" | "exact_weight key * 100 = of_int 18"
    | "exact_weight key * 100 = of_int 15" | "exact_weight key * 100 = of_int 13"
    | "exact_weight key * 100 = of_int 10" by auto
  then show ?thesis by (cases; blast)
qed

lemma exact_sum_hundredths: "\<exists>k::int. exact_sum es * 100 = of_int k"
proof (induction es)
  case Nil
  show ?case by (rule exI[of _ 0]) (simp add: exact_sum_def)
next
  case (Cons a es)
  obtain key s where a: "a = (key, s)" by (cases a)
  from Cons obtain k where k: "exact_sum es * 100 = of_int k" by blast
  from exact_weight_hundredths[of key] obtain w where w: "exact_weight key * 100 = of_int w" by blast
  have "exact_sum (a # es) * 100 = of_int s * (exact_weight key * 100) + exact_sum es * 100"
    by (simp add: a exact_sum_Cons algebra_simps)
  also have "\<dots> = of_int (s * w + k)" by (simp add: k w)
  finally show ?case by blast
qed

lemma round_near_hundredth:
  fixes a b :: rat
  assumes k: "b * 100 = of_int k" and b: "0 \<le> b" "b \<le> 100" and ab: "\<bar>a - b\<bar> \<le> 1 / 10 ^ 10"
  shows "\<lfloor>b + 1 / 2\<rfloor> - 1 \<le> \<lfloor>min 100 (max 0 a) + 1 / 2\<rfloor>"
    and "\<lfloor>min 100 (max 0 a) + 1 / 2\<rfloor> \<le> \<lfloor>b + 1 / 2\<rfloor>"
    and "\<not> half_integer b \<Longrightarrow> \<lfloor>min 100 (max 0 a) + 1 / 2\<rfloor> = \<lfloor>b + 1 / 2\<rfloor>"
proof -
  define n where "n = \<lfloor>b + 1 / 2\<rfloor>"
  define a' where "a' = min 100 (max 0 a)"
  define r where "r = k + 50 - 100 * n"
  define dl :: rat where "dl = 1 / 10 ^ 10"
  have dl: "0 < dl" "dl < 1 / 100" by (simp_all add: dl_def)
  have ab': "\<bar>a - b\<bar> \<le> dl" using ab by (simp only: dl_def)
  have d: "\<bar>a' - b\<bar> \<le> dl"
    using ab' b unfolding a'_def by (auto simp: abs_le_iff min_def max_def)
  have n1: "of_int n \<le> b + 1 / 2" and n2: "b + 1 / 2 < of_int n + 1"
    unfolding n_def by linarith+
  have bk: "b = of_int k / 100" using k by simp
  have br: "b + 1 / 2 = of_int n + of_int r / 100"
    by (simp add: bk r_def field_simps)
  have "(0::rat) \<le> of_int r / 100" using n1 br by linarith
  then have r0: "0 \<le> r" by simp
  have "of_int r / 100 < (1::rat)" using n2 br by linarith
  then have "(of_int r :: rat) < of_int 100" by simp
  then have "r < 100" by (simp only: of_int_less_iff)
  then have "r \<le> 99" by simp
  then have "(of_int r :: rat) \<le> of_int 99" by (simp only: of_int_le_iff)
  then have r99: "(of_int r :: rat) / 100 \<le> 99 / 100" by simp
  have "a' + 1 / 2 < of_int n + 1" using d br r99 dl by linarith
  then have "a' + 1 / 2 < of_int (n + 1)" by simp
  then have "\<lfloor>a' + 1 / 2\<rfloor> < n + 1" by (simp only: floor_less_iff)
  then show le: "\<lfloor>min 100 (max 0 a) + 1 / 2\<rfloor> \<le> \<lfloor>b + 1 / 2\<rfloor>"
    by (simp add: a'_def n_def)
  have "of_int n - 1 \<le> a' + 1 / 2" using d n1 dl by linarith
  then have "of_int (n - 1) \<le> a' + 1 / 2" by simp
  then have "n - 1 \<le> \<lfloor>a' + 1 / 2\<rfloor>" by (simp only: le_floor_iff)
  then show "\<lfloor>b + 1 / 2\<rfloor> - 1 \<le> \<lfloor>min 100 (max 0 a) + 1 / 2\<rfloor>"
    by (simp add: a'_def n_def)
  show "\<lfloor>min 100 (max 0 a) + 1 / 2\<rfloor> = \<lfloor>b + 1 / 2\<rfloor>" if nh: "\<not> half_integer b"
  proof -
    have "r \<noteq> 0"
    proof
      assume "r = 0"
      with br have bn: "b + 1 / 2 = of_int n" by simp
      have "half_integer b" unfolding half_integer_def n_def[symmetric] by (rule bn)
      with nh show False by simp
    qed
    with r0 have "1 \<le> r" by simp
    then have "(1::rat) \<le> of_int r" by simp
    then have "(1::rat) / 100 \<le> of_int r / 100" by simp
    then have "of_int n \<le> a' + 1 / 2" using d br dl by linarith
    then have "n \<le> \<lfloor>a' + 1 / 2\<rfloor>" by (simp only: le_floor_iff)
    with le show ?thesis by (simp add: a'_def n_def)
  qed
qed

lemma exact_sum_mset:
  assumes "mset es = mset es'"
  shows "exact_sum es = exact_sum es'"
proof -
  have "exact_sum xs = sum_mset (image_mset (\<lambda>(key, s). of_int s * exact_weight key) (mset xs))" for xs
    unfolding exact_sum_def by (simp add: sum_mset_sum_list[symmetric] del: sum_mset_sum_list)
  with assms show ?thesis by simp
qed

section \<open>Skill scores\<close>

lemma clamp_score_range: "0 \<le> fst (clamp_score a) \<and> fst (clamp_score a) \<le> 100"
  by (cases a) (simp add: clamp_score_def)

lemma score_plain_result: "score (plain_result a s) = fst a"
  by (cases a) (simp add: plain_result_def)

lemma fst_push_detail: "fst (push_detail m a) = fst a"
  by (cases a) (simp add: push_detail_def)

lemma score_updates:
  "score (r\<lparr>stats := st\<rparr>) = score r"
  "score (r\<lparr>limitation := l\<rparr>) = score r"
  "score (r\<lparr>sa_wordCount := w\<rparr>) = score r"
  "score (r\<lparr>uniqueWords := u\<rparr>) = score r"
  by simp_all

lemma analyzePronunciation_range:
  "0 \<le> score (analyzePronunciation ft tr) \<and> score (analyzePronunciation ft tr) \<le> 100"
  unfolding analyzePronunciation_def Let_def
  by (simp only: score_plain_result clamp_score_range)

lemma analyzeFluency_range:
  "0 \<le> score (analyzeFluency ft tr) \<and> score (analyzeFluency ft tr) \<le> 100"
  unfolding analyzeFluency_def Let_def
  by (simp only: score_plain_result clamp_score_range score_updates)

lemma analyzeVocabulary_range:
  "0 \<le> score (analyzeVocabulary ft topic tr) \<and> score (analyzeVocabulary ft topic tr) \<le> 100"
  unfolding analyzeVocabulary_def Let_def
  by (simp only: score_plain_result clamp_score_range score_updates)

lemma analyzeGrammar_range:
  "0 \<le> score (analyzeGrammar ft tr) \<and> score (analyzeGrammar ft tr) \<le> 100"
  unfolding analyzeGrammar_def Let_def
  by (simp only: score_plain_result fst_push_detail clamp_score_range score_updates)

lemma analyzeCoherence_range:
  "0 \<le> score (analyzeCoherence ft tr) \<and> score (analyzeCoherence ft tr) \<le> 100"
  unfolding analyzeCoherence_def Let_def
  by (simp only: score_plain_result clamp_score_range)

lemma analyzeTimeManagement_range:
  "tm_score (analyzeTimeManagement ft) \<in> {30, 55, 95, 82, 65}"
  by (simp add: analyzeTimeManagement_def Let_def)

lemma exact_sum_six:
  "exact_sum (six p f v g c t)
   = of_int (22 * p + 22 * f + 18 * v + 15 * g + 13 * c + 10 * t) / 100"
  by (simp add: six_def exact_sum_def exact_weight_def weights_def)

lemma exact_sum_six_range:
  assumes "\<forall>(key, s) \<in> set (six p f v g c t). 0 \<le> s \<and> s \<le> 100"
  shows "0 \<le> exact_sum (six p f v g c t) \<and> exact_sum (six p f v g c t) \<le> 100"
proof -
  from assms have r: "0 \<le> p" "p \<le> 100" "0 \<le> f" "f \<le> 100" "0 \<le> v" "v \<le> 100"
    "0 \<le> g" "g \<le> 100" "0 \<le> c" "c \<le> 100" "0 \<le> t" "t \<le> 100"
    by (simp_all add: six_def)
  then have "0 \<le> 22 * p + 22 * f + 18 * v + 15 * g + 13 * c + 10 * t"
    and "22 * p + 22 * f + 18 * v + 15 * g + 13 * c + 10 * t \<le> 10000" by linarith+
  then have "(0::rat) \<le> of_int (22 * p + 22 * f + 18 * v + 15 * g + 13 * c + 10 * t)"
    and "(of_int (22 * p + 22 * f + 18 * v + 15 * g + 13 * c + 10 * t) :: rat) \<le> of_int 10000"
    by (simp_all only: of_int_le_iff of_int_0_le_iff)
  then show ?thesis unfolding exact_sum_six by simp
qed

lemma overall_permuted:
  assumes r: "\<forall>(key, s) \<in> set (six p f v g c t). 0 \<le> s \<and> s \<le> 100"
    and m: "mset es = mset (six p f v g c t)"
  shows "exact_overall (six p f v g c t) - 1 \<le> calculateOverallScore es"
    and "calculateOverallScore es \<le> exact_overall (six p f v g c t)"
    and "\<not> half_integer (exact_sum (six p f v g c t))
         \<Longrightarrow> calculateOverallScore es = exact_overall (six p f v g c t)"
proof -
  define b where "b = exact_sum (six p f v g c t)"
  have set: "set es = set (six p f v g c t)" using m by (rule mset_eq_setD)
  have len: "length es = 6" using mset_eq_length[OF m] by (simp add: six_def)
  have res: "\<forall>(key, s) \<in> set es. 0 \<le> s \<and> s \<le> 100" using r set by simp
  have be: "exact_sum es = b" unfolding b_def by (rule exact_sum_mset[OF m])
  have err: "\<bar>overall_loop es 0 - b\<bar> \<le> 1 / 10 ^ 10"
    using overall_score_error[OF res] len be by simp
  from exact_sum_hundredths[of "six p f v g c t"] obtain k where k: "b * 100 = of_int k"
    unfolding b_def by blast
  have br: "0 \<le> b" "b \<le> 100" using exact_sum_six_range[OF r] by (simp_all add: b_def)
  have eo: "exact_overall (six p f v g c t) = \<lfloor>b + 1 / 2\<rfloor>"
    using br by (simp add: exact_overall_def b_def)
  show "exact_overall (six p f v g c t) - 1 \<le> calculateOverallScore es"
    unfolding eo calculateOverallScore_def by (rule round_near_hundredth(1)[OF k br err])
  show "calculateOverallScore es \<le> exact_overall (six p f v g c t)"
    unfolding eo calculateOverallScore_def by (rule round_near_hundredth(2)[OF k br err])
  show "calculateOverallScore es = exact_overall (six p f v g c t)"
    if "\<not> half_integer (exact_sum (six p f v g c t))"
    unfolding eo calculateOverallScore_def
    by (rule round_near_hundredth(3)[OF k br err]) (use that in \<open>simp add: b_def\<close>)
qed

lemma calculateOverallScore_range:
  "0 \<le> calculateOverallScore es \<and> calculateOverallScore es \<le> 100"
proof -
  define x where "x = min 100 (max 0 (overall_loop es 0))"
  have "0 \<le> x" "x \<le> 100" by (simp_all add: x_def)
  then have "0 \<le> \<lfloor>x + 1 / 2\<rfloor>" "\<lfloor>x + 1 / 2\<rfloor> \<le> 100"
    by (simp_all add: floor_le_iff le_floor_iff)
  then show ?thesis by (simp add: calculateOverallScore_def x_def)
qed

lemma half_integer_hundredths:
  "half_integer (of_int K / 100) \<longleftrightarrow> K mod 100 = 50"
proof
  assume h: "half_integer (of_int K / 100)"
  define n where "n = \<lfloor>(of_int K :: rat) / 100 + 1 / 2\<rfloor>"
  define x :: rat where "x = of_int K"
  define y :: rat where "y = of_int n"
  from h have "x / 100 + 1 / 2 = y"
    by (simp only: half_integer_def n_def x_def y_def)
  then have "x + 50 = 100 * y" by linarith
  then have "(of_int (K + 50) :: rat) = of_int (100 * n)" by (simp add: x_def y_def)
  then have "K + 50 = 100 * n" by (simp only: of_int_eq_iff)
  then have "K = 50 + (n - 1) * 100" by simp
  then have "K mod 100 = (50 + (n - 1) * 100) mod 100" by (rule arg_cong)
  also have "\<dots> = 50 mod 100" by (rule mod_mult_self1)
  also have "\<dots> = 50" by simp
  finally show "K mod 100 = 50" .
next
  assume m: "K mod 100 = 50"
  define q where "q = K div 100 + 1"
  have "K = 100 * (K div 100) + K mod 100" by simp
  with m have "K + 50 = 100 * q" by (simp add: q_def)
  then have "(of_int (K + 50) :: rat) = of_int (100 * q)"
    by (simp only: of_int_eq_iff)
  then have "(of_int K :: rat) + 50 = 100 * of_int q" by simp
  then have e: "(of_int K :: rat) / 100 + 1 / 2 = of_int q"
    by linarith
  show "half_integer (of_int K / 100)"
    unfolding half_integer_def e by simp
qed

lemma weights_sum: "sum_list (map snd weights) = 1"
  by (simp add: weights_def)

lemma overall_loop_six:
  "overall_loop (six p f v g c t) 0 =
     dadd (dadd (dadd (dadd (dadd (dadd 0
       (dmul (of_int p) (fl (22 / 100)))) (dmul (of_int f) (fl (22 / 100))))
       (dmul (of_int v) (fl (18 / 100)))) (dmul (of_int g) (fl (15 / 100))))
       (dmul (of_int c) (fl (13 / 100)))) (dmul (of_int t) (fl (10 / 100)))"
  by (simp add: six_def weight_of_def weights_def)

text \<open>
  Claim C4, as the code has it. For six skill scores between 0 and 100 the overall
  score is the rounded, clamped weighted sum, where the sum is accumulated in double
  precision in the order pronunciation, fluency, vocabulary, grammar, coherence, time
  with the doubles nearest to 0.22, 0.22, 0.18, 0.15, 0.13 and 0.10. The accumulated sum
  differs from the sum in exact arithmetic by at most \<open>10^-10\<close>. The overall score is
  therefore the exact formula's value or one less, and it is the exact formula's value
  whenever the exact sum is not a half-integer, that is whenever the sum of the scores
  times the weights in hundredths does not end in 50. The decimal weights sum to 1.
\<close>

theorem calculateOverallScore_weighted_sum:
  assumes "\<forall>(key, s) \<in> set (six p f v g c t). 0 \<le> s \<and> s \<le> 100"
  shows "calculateOverallScore (six p f v g c t) =
           \<lfloor>min 100 (max 0
             (dadd (dadd (dadd (dadd (dadd (dadd 0
               (dmul (of_int p) (fl (22 / 100)))) (dmul (of_int f) (fl (22 / 100))))
               (dmul (of_int v) (fl (18 / 100)))) (dmul (of_int g) (fl (15 / 100))))
               (dmul (of_int c) (fl (13 / 100)))) (dmul (of_int t) (fl (10 / 100))))) + 1 / 2\<rfloor>
         \<and> \<bar>overall_loop (six p f v g c t) 0
              - of_int (22 * p + 22 * f + 18 * v + 15 * g + 13 * c + 10 * t) / 100\<bar> \<le> 1 / 10 ^ 10
         \<and> exact_overall (six p f v g c t)
              = \<lfloor>(of_int (22 * p + 22 * f + 18 * v + 15 * g + 13 * c + 10 * t) :: rat) / 100 + 1 / 2\<rfloor>
         \<and> exact_overall (six p f v g c t) - 1 \<le> calculateOverallScore (six p f v g c t)
         \<and> calculateOverallScore (six p f v g c t) \<le> exact_overall (six p f v g c t)
         \<and> ((22 * p + 22 * f + 18 * v + 15 * g + 13 * c + 10 * t) mod 100 \<noteq> 50
              \<longrightarrow> calculateOverallScore (six p f v g c t) = exact_overall (six p f v g c t))
         \<and> sum_list (map snd weights) = 1"
proof -
  let ?K = "22 * p + 22 * f + 18 * v + 15 * g + 13 * c + 10 * t"
  have 1: "calculateOverallScore (six p f v g c t) =
           \<lfloor>min 100 (max 0
             (dadd (dadd (dadd (dadd (dadd (dadd 0
               (dmul (of_int p) (fl (22 / 100)))) (dmul (of_int f) (fl (22 / 100))))
               (dmul (of_int v) (fl (18 / 100)))) (dmul (of_int g) (fl (15 / 100))))
               (dmul (of_int c) (fl (13 / 100)))) (dmul (of_int t) (fl (10 / 100))))) + 1 / 2\<rfloor>"
    unfolding calculateOverallScore_def overall_loop_six ..
  have len: "length (six p f v g c t) \<le> 6" by (simp add: six_def)
  have 2: "\<bar>overall_loop (six p f v g c t) 0 - of_int ?K / 100\<bar> \<le> 1 / 10 ^ 10"
    using overall_score_error[OF assms len] unfolding exact_sum_six .
  have r: "0 \<le> exact_sum (six p f v g c t)" "exact_sum (six p f v g c t) \<le> 100"
    using exact_sum_six_range[OF assms] by simp_all
  have 3: "exact_overall (six p f v g c t) = \<lfloor>(of_int ?K :: rat) / 100 + 1 / 2\<rfloor>"
    using r unfolding exact_overall_def exact_sum_six by simp
  have m: "mset (six p f v g c t) = mset (six p f v g c t)" ..
  note b = overall_permuted[OF assms m]
  have 6: "calculateOverallScore (six p f v g c t) = exact_overall (six p f v g c t)"
    if "?K mod 100 \<noteq> 50"
    by (rule b(3)) (use that in \<open>simp only: exact_sum_six half_integer_hundredths not_False_eq_True\<close>)
  from 1 2 3 b(1) b(2) 6 weights_sum show ?thesis by blast
qed



text \<open>
  For the scores 85, 42, 84, 83, 73, 95 the exact weighted sum is 74.5, which rounds to 75;
  the sum accumulated in doubles is just below 74.5 and the overall score is 74.
\<close>

theorem calculateOverallScore_tie_counterexample:
  "calculateOverallScore (six 85 42 84 83 73 95) = 74
   \<and> exact_overall (six 85 42 84 83 73 95) = 75
   \<and> exact_sum (six 85 42 84 83 73 95) = 149 / 2"
  by code_simp

theorem calculateOverallScore_weighted_sum_witness:
  "calculateOverallScore (six 100 96 70 73 82 95) = 87
   \<and> exact_overall (six 100 96 70 73 82 95) = 87"
proof -
  have h: "\<forall>(key, s) \<in> set (six 100 96 70 73 82 95). 0 \<le> s \<and> s \<le> 100"
    by (simp add: six_def)
  have e: "exact_overall (six 100 96 70 73 82 95) = 87"
    by code_simp
  have m: "(22 * 100 + 22 * 96 + 18 * 70 + 15 * 73 + 13 * 82 + 10 * 95) mod 100 \<noteq> (50::int)"
    by simp
  from calculateOverallScore_weighted_sum [OF h] m e show ?thesis by simp
qed

lemma skill_entries_six:
  "skill_entries ft topic tr =
     six (score (analyzePronunciation ft tr)) (score (analyzeFluency ft tr))
         (score (analyzeVocabulary ft topic tr)) (score (analyzeGrammar ft tr))
         (score (analyzeCoherence ft tr)) (tm_score (analyzeTimeManagement ft))"
  by (simp add: skill_entries_def six_def)

lemma skill_entries_range:
  "\<forall>(key, s) \<in> set (skill_entries ft topic tr). 0 \<le> s \<and> s \<le> 100"
proof -
  have "0 \<le> tm_score (analyzeTimeManagement ft) \<and> tm_score (analyzeTimeManagement ft) \<le> 100"
    using analyzeTimeManagement_range[of ft] by auto
  then show ?thesis
    using analyzePronunciation_range[of ft tr] analyzeFluency_range[of ft tr]
      analyzeVocabulary_range[of ft topic tr] analyzeGrammar_range[of ft tr]
      analyzeCoherence_range[of ft tr]
    by (simp add: skill_entries_def)
qed

lemma overallScore_entries:
  "overallScore (analyzeFullSpeaking now ft topic tr)
   = calculateOverallScore (skill_entries ft topic tr)"
  by (simp add: analyzeFullSpeaking_def skill_entries_def Let_def)

text \<open>
  Claim C8, as the code has it. For every feature set, topic and transcript analysis
  (present or absent) the six skill scores lie between 0 and 100, and so does the
  overall score, which is \<open>calculateOverallScore\<close> of the six entries. For every
  reordering of the entries the overall score lies between 0 and 100 and differs from
  that of the original order by at most 1; the two are equal whenever the exact weighted
  sum is not a half-integer.
\<close>

theorem scores_in_range_reordering:
  assumes "mset es = mset (skill_entries ft topic tr)"
  shows "(\<forall>(key, s) \<in> set (skill_entries ft topic tr). 0 \<le> s \<and> s \<le> 100)
         \<and> overallScore (analyzeFullSpeaking now ft topic tr)
             = calculateOverallScore (skill_entries ft topic tr)
         \<and> 0 \<le> calculateOverallScore es \<and> calculateOverallScore es \<le> 100
         \<and> \<bar>calculateOverallScore es - calculateOverallScore (skill_entries ft topic tr)\<bar> \<le> 1
         \<and> (\<not> half_integer (exact_sum (skill_entries ft topic tr))
              \<longrightarrow> calculateOverallScore es = calculateOverallScore (skill_entries ft topic tr))"
proof -
  let ?en = "skill_entries ft topic tr"
  obtain p f v g c t where en: "?en = six p f v g c t"
    using skill_entries_six by blast
  have r: "\<forall>(key, s) \<in> set (six p f v g c t). 0 \<le> s \<and> s \<le> 100"
    using skill_entries_range[of ft topic tr] unfolding en .
  have m: "mset es = mset (six p f v g c t)" using assms unfolding en .
  have m0: "mset (six p f v g c t) = mset (six p f v g c t)" ..
  note a = overall_permuted[OF r m]
  note b = overall_permuted[OF r m0]
  have d: "\<bar>calculateOverallScore es - calculateOverallScore (six p f v g c t)\<bar> \<le> 1"
    using a(1) a(2) b(1) b(2) by linarith
  have e: "calculateOverallScore es = calculateOverallScore (six p f v g c t)"
    if "\<not> half_integer (exact_sum (six p f v g c t))"
    using a(3)[OF that] b(3)[OF that] by simp
  from r d e calculateOverallScore_range[of es] overallScore_entries[of now ft topic tr]
  show ?thesis unfolding en by blast
qed

text \<open>
  The skill scores of \<open>slow_speech\<close> on the topic "work" without a transcript are 65, 35,
  65, 50, 70 and 82, with the exact weighted sum 58.5. Accumulated in the order of the
  code the overall score is 59; with the entries in the order fluency, grammar, time,
  vocabulary, pronunciation, coherence it is 58.
\<close>

theorem reordering_counterexample:
  "skill_entries slow_speech ''work'' None = six 65 35 65 50 70 82
   \<and> mset [(''fluency'', 35), (''grammar'', 50), (''time'', 82),
            (''vocabulary'', 65), (''pronunciation'', 65), (''coherence'', 70)]
       = mset (six 65 35 65 50 70 82)
   \<and> calculateOverallScore (six 65 35 65 50 70 82) = 59
   \<and> calculateOverallScore
        [(''fluency'', 35), (''grammar'', 50), (''time'', 82),
         (''vocabulary'', 65), (''pronunciation'', 65), (''coherence'', 70)] = 58"
proof -
  have "skill_entries slow_speech ''work'' None = six 65 35 65 50 70 82
   \<and> calculateOverallScore (six 65 35 65 50 70 82) = 59
   \<and> calculateOverallScore
        [(''fluency'', 35), (''grammar'', 50), (''time'', 82),
         (''vocabulary'', 65), (''pronunciation'', 65), (''coherence'', 70)] = 58"
    by code_simp
  moreover have "mset [(''fluency'', 35), (''grammar'', 50), (''time'', 82),
            (''vocabulary'', 65), (''pronunciation'', 65), (''coherence'', 70)]
       = mset (six 65 35 65 50 70 82)"
    by (simp add: six_def)
  ultimately show ?thesis by blast
qed

theorem scores_in_range_reordering_witness:
  "mset (rev (skill_entries fluent_speech ''custom'' None))
     = mset (skill_entries fluent_speech ''custom'' None)
   \<and> skill_entries fluent_speech ''custom'' None = six 100 96 70 73 82 95
   \<and> \<not> half_integer (exact_sum (skill_entries fluent_speech ''custom'' None))
   \<and> calculateOverallScore (rev (skill_entries fluent_speech ''custom'' None)) = 87
   \<and> calculateOverallScore (skill_entries fluent_speech ''custom'' None) = 87"
proof -
  let ?en = "skill_entries fluent_speech ''custom'' None"
  have m: "mset (rev ?en) = mset ?en" by simp
  have e: "?en = six 100 96 70 73 82 95" by code_simp
  have h: "\<not> half_integer (exact_sum (six 100 96 70 73 82 95))" by code_simp
  have c: "calculateOverallScore (six 100 96 70 73 82 95) = 87" by code_simp
  from scores_in_range_reordering [OF m] e h c m show ?thesis by simp
qed

section \<open>Determinism\<close>



section \<open>Recommendations\<close>

lemma sorted_skills_length: "length (sorted_skills d) = 5"
  unfolding sorted_skills_def by (simp only: length_sort) simp

lemma sorted_skills_mset:
  "mset (sorted_skills d) =
     mset [(''pronunciation'', rd_pronunciation d), (''fluency'', rd_fluency d),
           (''vocabulary'', rd_vocabulary d), (''grammar'', rd_grammar d),
           (''coherence'', rd_coherence d)]"
  unfolding sorted_skills_def by (rule mset_sort)

lemma sorted_skills_sorted:
  "sorted (map (\<lambda>(name, a). score a) (sorted_skills d))"
  unfolding sorted_skills_def by (rule sorted_sort_key)

lemma take_4_short: "length xs \<le> 4 \<Longrightarrow> take 4 xs = xs"
  by simp

text \<open>
  Claim C1, as the code has it. The five skills are sorted by ascending score, so the
  first two of the sorted list are the two lowest-scoring skills. The recommendations
  are, in this order: the recommendation of the weakest skill if its score is below 65;
  that of the second-weakest if its score is below 60; the filler-word recommendation if
  a transcript analysis is present and its filler word count exceeds 5; the foundation
  recommendation if the level is A1 or A2. There are never more than four.
\<close>

theorem generateRecommendations_priority:
  "mset (sorted_skills d) =
     mset [(''pronunciation'', rd_pronunciation d), (''fluency'', rd_fluency d),
           (''vocabulary'', rd_vocabulary d), (''grammar'', rd_grammar d),
           (''coherence'', rd_coherence d)]
   \<and> sorted (map (\<lambda>(name, a). score a) (sorted_skills d))
   \<and> generateRecommendations d =
       (if score (snd (sorted_skills d ! 0)) < 65
        then [getSkillRecommendation (fst (sorted_skills d ! 0)) (snd (sorted_skills d ! 0))]
        else [])
       @ (if score (snd (sorted_skills d ! 1)) < 60
          then [getSkillRecommendation (fst (sorted_skills d ! 1)) (snd (sorted_skills d ! 1))]
          else [])
       @ (case rd_transcriptionAnalysis d of
            None \<Rightarrow> []
          | Some tr \<Rightarrow> if fillerWordCount tr > 5
                       then [fillerRecommendation (fillerWordCount tr)] else [])
       @ (if rd_level d = A1 \<or> rd_level d = A2 then [foundationRecommendation] else [])
   \<and> length (generateRecommendations d) \<le> 4"
proof -
  define w where "w = sorted_skills d ! 0"
  define s where "s = sorted_skills d ! 1"
  define r1 where "r1 = (if score (snd w) < 65 then [getSkillRecommendation (fst w) (snd w)] else [])"
  define r2 where "r2 = (if score (snd s) < 60 then [getSkillRecommendation (fst s) (snd s)] else [])"
  define r3 where "r3 = (case rd_transcriptionAnalysis d of
            None \<Rightarrow> []
          | Some tr \<Rightarrow> if fillerWordCount tr > 5
                       then [fillerRecommendation (fillerWordCount tr)] else [])"
  define r4 where "r4 = (if rd_level d = A1 \<or> rd_level d = A2 then [foundationRecommendation] else [])"
  have g: "generateRecommendations d = take 4 (r1 @ r2 @ r3 @ r4)"
    unfolding generateRecommendations_def Let_def w_def s_def r1_def r2_def r3_def r4_def
    by (simp split: option.splits)
  have l: "length (r1 @ r2 @ r3 @ r4) \<le> 4"
    by (simp add: r1_def r2_def r3_def r4_def split: option.splits)
  from g l have e: "generateRecommendations d = r1 @ r2 @ r3 @ r4" by simp
  from e l have "length (generateRecommendations d) \<le> 4" by simp
  with e sorted_skills_mset[of d] sorted_skills_sorted[of d]
  show ?thesis unfolding w_def s_def r1_def r2_def r3_def r4_def by blast
qed

text \<open>
  The skill scores of \<open>fluent_speech\<close> without a transcript are 100, 96, 70, 73 and 82:
  the weakest skill, vocabulary, scores 70, and no recommendation is given at all.
\<close>

theorem weakest_not_recommended_counterexample:
  "scores (analyzeFullSpeaking ''2024-05-01T10:00:00.000Z'' fluent_speech ''custom'' None)
     = [(''pronunciation'', 100), (''vocabulary'', 70), (''fluency'', 96),
        (''grammar'', 73), (''time'', 95), (''coherence'', 82)]
   \<and> recommendations (analyzeFullSpeaking ''2024-05-01T10:00:00.000Z'' fluent_speech ''custom'' None) = []"
  by code_simp


theorem generateRecommendations_priority_witness:
  "map fst (sorted_skills example_data)
     = [''fluency'', ''grammar'', ''pronunciation'', ''vocabulary'', ''coherence'']
   \<and> generateRecommendations example_data =
       [getSkillRecommendation ''fluency'' (example_analysis 35),
        getSkillRecommendation ''grammar'' (example_analysis 50),
        fillerRecommendation 7,
        foundationRecommendation]
   \<and> length (generateRecommendations example_data) = 4"
proof -
  have s: "sorted_skills example_data =
             [(''fluency'', example_analysis 35), (''grammar'', example_analysis 50),
              (''pronunciation'', example_analysis 65), (''vocabulary'', example_analysis 65),
              (''coherence'', example_analysis 70)]"
    by code_simp
  have v: "score (example_analysis 35) = 35" "score (example_analysis 50) = 50"
    by (simp_all add: example_analysis_def plain_result_def)
  have t: "rd_transcriptionAnalysis example_data = Some (getEmptyAnalysis\<lparr>fillerWordCount := 7\<rparr>)"
    "rd_level example_data = A2"
    by (simp_all add: example_data_def)
  from generateRecommendations_priority [of example_data]
  have "generateRecommendations example_data =
       [getSkillRecommendation ''fluency'' (example_analysis 35),
        getSkillRecommendation ''grammar'' (example_analysis 50),
        fillerRecommendation 7,
        foundationRecommendation]"
    by (simp add: s v t)
  then show ?thesis by (simp add: s)
qed

end
